theory Spec2Isabelle
  imports Complex_Main "HOL-Library.Char_ord" "HOL-Library.List_Lexorder" "HOL-Library.Multiset"
begin

section \<open>Strings\<close>

text \<open>
  Source strings are modelled as lists of characters. The model covers ASCII text:
  case mapping acts on the letters A-Z and a-z and leaves every other character alone,
  and white space is the ASCII white space matched by the regular expression class
  \<^verbatim>\<open>\s\<close>. Scores are JavaScript numbers; they are modelled as real numbers.
\<close>

definition upperChars :: string where
  "upperChars = ''ABCDEFGHIJKLMNOPQRSTUVWXYZ''"

definition lowerChars :: string where
  "lowerChars = ''abcdefghijklmnopqrstuvwxyz''"

definition digitChars :: string where
  "digitChars = ''0123456789''"

definition lowerChar :: "char \<Rightarrow> char" where
  "lowerChar c = (case map_of (zip upperChars lowerChars) c of Some d \<Rightarrow> d | None \<Rightarrow> c)"

definition upperChar :: "char \<Rightarrow> char" where
  "upperChar c = (case map_of (zip lowerChars upperChars) c of Some d \<Rightarrow> d | None \<Rightarrow> c)"

definition toLowerCase :: "string \<Rightarrow> string" where
  "toLowerCase s = map lowerChar s"

definition toUpperCase :: "string \<Rightarrow> string" where
  "toUpperCase s = map upperChar s"

text \<open>The class \<^verbatim>\<open>\s\<close>: tab, line feed, vertical tab, form feed, carriage return, space.\<close>

definition isSpace :: "char \<Rightarrow> bool" where
  "isSpace c = (c \<in> set [CHR 0x09, CHR 0x0A, CHR 0x0B, CHR 0x0C, CHR 0x0D, CHR 0x20])"

text \<open>The class \<^verbatim>\<open>\w\<close>: letters, digits and the underscore.\<close>

definition isWordChar :: "char \<Rightarrow> bool" where
  "isWordChar c = (c \<in> set upperChars \<or> c \<in> set lowerChars \<or> c \<in> set digitChars \<or> c = CHR ''_'')"

definition isDigit :: "char \<Rightarrow> bool" where
  "isDigit c = (c \<in> set digitChars)"

text \<open>
  \<^verbatim>\<open>s.split(/[...]+/)\<close>: the pieces between maximal runs of separator characters. A
  leading or trailing run yields an empty first or last piece, and the empty string
  yields one empty piece, as in the source language.
\<close>

fun split_go :: "(char \<Rightarrow> bool) \<Rightarrow> bool \<Rightarrow> string \<Rightarrow> string \<Rightarrow> string list" where
  "split_go sep inRun acc [] = [rev acc]"
| "split_go sep inRun acc (c # cs) =
     (if sep c then
        (if inRun then split_go sep True acc cs
         else rev acc # split_go sep True [] cs)
      else split_go sep False (c # acc) cs)"

definition split_re :: "(char \<Rightarrow> bool) \<Rightarrow> string \<Rightarrow> string list" where
  "split_re sep s = split_go sep False [] s"

text \<open>\<^verbatim>\<open>s.includes(p)\<close>: \<open>p\<close> occurs in \<open>s\<close> as a contiguous substring.\<close>

fun js_includes :: "string \<Rightarrow> string \<Rightarrow> bool" where
  "js_includes [] p = (p = [])"
| "js_includes (c # cs) p = (take (length p) (c # cs) = p \<or> js_includes cs p)"

definition trim :: "string \<Rightarrow> string" where
  "trim s = rev (dropWhile isSpace (rev (dropWhile isSpace s)))"

fun join_with :: "string \<Rightarrow> string list \<Rightarrow> string" where
  "join_with sep [] = []"
| "join_with sep [x] = x"
| "join_with sep (x # y # ys) = x @ sep @ join_with sep (y # ys)"

text \<open>\<^verbatim>\<open>query.split(/\s+/).filter((w) => w.length > 2)\<close>\<close>

definition splitWords :: "string \<Rightarrow> string list" where
  "splitWords q = filter (\<lambda>w. length w > 2) (split_re isSpace q)"

section \<open>Term matcher (matchesTechTerm)\<close>

text \<open>The delimiter class \<^verbatim>\<open>[\s.,;:!?()\[\]{}'"<>]\<close> of the word split.\<close>

definition isTechDelim :: "char \<Rightarrow> bool" where
  "isTechDelim c = (isSpace c \<or> c \<in> set (''.,;:!?()[]{}<>'' @ [CHR 0x27, CHR 0x22]))"

text \<open>\<^verbatim>\<open>word.replace(/[^\w-]/g, '')\<close>\<close>

definition cleanWordOf :: "string \<Rightarrow> string" where
  "cleanWordOf word = filter (\<lambda>c. isWordChar c \<or> c = CHR ''-'') word"

text \<open>
  \<^verbatim>\<open>cleanWord.charAt(0).toUpperCase() + cleanWord.slice(1).toLowerCase()\<close>
\<close>

definition titleCase :: "string \<Rightarrow> string" where
  "titleCase w = toUpperCase (take 1 w) @ toLowerCase (drop 1 w)"

definition isNormalCase :: "string \<Rightarrow> bool" where
  "isNormalCase cleanWord =
     (cleanWord = toLowerCase cleanWord \<or>
      cleanWord = toUpperCase cleanWord \<or>
      cleanWord = titleCase cleanWord)"

text \<open>
  One iteration of the loop over the words: the word is skipped when its cleaned form is
  empty, differs from the term up to case, or is cased abnormally.
\<close>

definition wordHits :: "string \<Rightarrow> string \<Rightarrow> bool" where
  "wordHits termLower word =
     (let cleanWord = cleanWordOf word in
      cleanWord \<noteq> [] \<and> toLowerCase cleanWord = termLower \<and> isNormalCase cleanWord)"

fun scanWords :: "string \<Rightarrow> string list \<Rightarrow> bool" where
  "scanWords termLower [] = False"
| "scanWords termLower (word # ws) =
     (if wordHits termLower word then True else scanWords termLower ws)"

definition matchesTechTerm :: "string \<Rightarrow> string \<Rightarrow> bool" where
  "matchesTechTerm content term =
     scanWords (toLowerCase term) (split_re isTechDelim content)"

section \<open>Relevance scorer (calculateRelevanceScore)\<close>

datatype message_type = User | Assistant | ToolUse | ToolResult

text \<open>
  The \<^verbatim>\<open>content\<close> of a raw message is a string, an array of items, or neither. An
  item is a text item, a tool use with its name, a tool result, or of another type.
\<close>

datatype content_item = TextItem string | ToolUseItem string | ToolResultItem | OtherItem

datatype msg_content = StringContent string | ArrayContent "content_item list" | NoContent

record ClaudeMessage =
  cm_type :: message_type
  cm_message :: "msg_content option"
  cm_cwd :: string

fun itemText :: "content_item \<Rightarrow> string" where
  "itemText (TextItem t) = t"
| "itemText (ToolUseItem n) = ''[Tool: '' @ n @ '']''"
| "itemText ToolResultItem = ''[Tool Result]''"
| "itemText OtherItem = []"

fun extractContentFromMessage :: "msg_content \<Rightarrow> string" where
  "extractContentFromMessage (StringContent s) = s"
| "extractContentFromMessage (ArrayContent items) = trim (join_with '' '' (map itemText items))"
| "extractContentFromMessage NoContent = []"

text \<open>\<^verbatim>\<open>extractContentFromMessage(message.message || {})\<close>\<close>

definition contentOf :: "ClaudeMessage \<Rightarrow> string" where
  "contentOf message =
     extractContentFromMessage (case cm_message message of None \<Rightarrow> NoContent | Some c \<Rightarrow> c)"

definition coreTechNames :: "string list" where
  "coreTechNames = [
   ''webpack'', ''docker'', ''react'', ''vue'', ''angular'', ''node'', ''npm'', ''yarn'',
   ''typescript'', ''python'', ''rust'', ''go'', ''java'', ''kubernetes'', ''aws'',
   ''gcp'', ''azure'', ''postgres'', ''mysql'', ''redis'', ''mongodb'', ''graphql'',
   ''rest'', ''grpc'', ''oauth'', ''jwt'', ''git'', ''github'', ''gitlab'', ''jenkins'',
   ''nginx'', ''apache'', ''eslint'', ''prettier'', ''babel'', ''vite'', ''rollup'',
   ''esbuild'', ''jest'', ''mocha'', ''cypress'', ''playwright'', ''nextjs'', ''nuxt'',
   ''svelte'', ''tailwind'', ''sass'', ''less'', ''vitest'', ''pnpm'', ''turborepo'',
   ''prisma'', ''drizzle'', ''sequelize'', ''sqlite'', ''leveldb'', ''indexeddb'']"

text \<open>\<^verbatim>\<open>coreTechPatterns.test(w)\<close>: the anchored, case-insensitive alternation.\<close>

definition coreTechPatterns :: "string \<Rightarrow> bool" where
  "coreTechPatterns w = (toLowerCase w \<in> set coreTechNames)"

definition genericTerms :: "string list" where
  "genericTerms = [
   ''config'', ''configuration'', ''setup'', ''install'', ''build'', ''deploy'', ''test'',
   ''run'', ''start'', ''create'', ''update'', ''fix'', ''add'', ''remove'', ''change'',
   ''optimize'', ''optimization'', ''improve'', ''use'', ''using'', ''with'', ''for'',
   ''the'', ''and'', ''make'', ''write'', ''read'', ''delete'', ''check'', ''testing'',
   ''tests'', ''mocks'', ''mocking'', ''mock'', ''stubs'', ''stubbing'', ''specs'',
   ''coverage'', ''design'', ''designs'', ''designing'', ''responsive'', ''architecture'',
   ''pattern'', ''patterns'', ''caching'', ''cache'', ''rendering'', ''render'',
   ''bundle'', ''bundling'', ''performance'', ''strategy'', ''strategies'', ''approach'',
   ''implementation'', ''solution'', ''solutions'', ''feature'', ''features'', ''system'',
   ''systems'', ''process'', ''processing'', ''handler'', ''handling'', ''manager'',
   ''management'', ''files'', ''file'', ''folder'', ''directory'', ''path'', ''code'',
   ''data'', ''error'', ''errors'', ''function'', ''functions'', ''class'', ''classes'',
   ''method'', ''methods'', ''variable'', ''variables'', ''component'', ''components'',
   ''module'', ''modules'', ''package'', ''packages'', ''library'', ''libraries'',
   ''format'', ''formatting'', ''style'', ''styles'', ''layout'', ''display'', ''show'',
   ''hide'', ''visible'', ''rules'', ''rule'', ''options'', ''option'', ''settings'',
   ''setting'', ''params'', ''parameters'', ''server'', ''client'', ''request'',
   ''response'', ''async'', ''await'', ''promise'', ''callback'', ''import'', ''export'',
   ''require'', ''include'', ''define'', ''declare'', ''return'', ''output'', ''input'',
   ''database'', ''schema'', ''schemas'', ''models'', ''model'', ''table'', ''tables'',
   ''query'', ''queries'', ''migration'', ''migrations'', ''index'', ''indexes'',
   ''field'', ''fields'', ''column'', ''columns'', ''deployment'', ''container'',
   ''containers'', ''service'', ''services'', ''cluster'', ''clusters'', ''instance'',
   ''instances'', ''environment'', ''environments'', ''manifest'', ''resource'',
   ''resources'', ''interface'', ''interfaces'', ''types'', ''typing'', ''object'',
   ''objects'', ''array'', ''arrays'', ''string'', ''strings'', ''number'', ''numbers'',
   ''boolean'', ''value'', ''values'', ''property'', ''properties'']"

definition strictCoreTerms :: "string \<Rightarrow> string list" where
  "strictCoreTerms query = filter coreTechPatterns (splitWords (toLowerCase query))"

definition supportingTerms :: "string \<Rightarrow> string list" where
  "supportingTerms query =
     filter (\<lambda>w. \<not> coreTechPatterns w \<and> w \<notin> set genericTerms \<and> length w \<ge> 5)
       (splitWords (toLowerCase query))"

text \<open>
  The number of terms of a list the content matches: each loop of the scorer adds a fixed
  weight per matching term.
\<close>

definition countMatches :: "string \<Rightarrow> string list \<Rightarrow> nat" where
  "countMatches content terms = length (filter (matchesTechTerm content) terms)"

definition calculateRelevanceScore :: "ClaudeMessage \<Rightarrow> string \<Rightarrow> string option \<Rightarrow> real" where
  "calculateRelevanceScore message query projectPath =
     (let content = contentOf message;
          lowerQuery = toLowerCase query;
          lowerContent = toLowerCase content;
          queryWords = splitWords lowerQuery;
          strictCore = strictCoreTerms query;
          supporting = supportingTerms query;
          strictCoreMatches = countMatches content strictCore
      in if length strictCore > 0 \<and> strictCoreMatches = 0 then 0
         else
           (let residual = filter (\<lambda>word. word \<notin> set strictCore \<and> word \<notin> set supporting) queryWords;
                residualMatches = countMatches content residual;
                wordMatchCount = strictCoreMatches + residualMatches
            in real (10 * strictCoreMatches)
               + real (3 * countMatches content supporting)
               + real (2 * residualMatches)
               + (if js_includes lowerContent lowerQuery then 5 else 0)
               + (if length queryWords > 0 \<and>
                     real wordMatchCount \<ge> of_int \<lceil>real (length queryWords) * 0.6\<rceil>
                  then 4 else 0)
               + (if cm_type message = ToolUse \<or> cm_type message = ToolResult then 5 else 0)
               + (if js_includes content ''src/'' \<or> js_includes content ''.ts'' \<or>
                     js_includes content ''.js''
                  then 3 else 0)
               + (case projectPath of
                    None \<Rightarrow> 0
                  | Some p \<Rightarrow>
                      if p \<noteq> [] \<and> cm_cwd message \<noteq> [] \<and> js_includes (cm_cwd message) p
                      then 5 else 0)))"

section \<open>Records of the search engine\<close>

record MessageContext =
  filesReferenced :: "string list option"
  toolsUsed :: "string list option"
  errorPatterns :: "string list option"
  bashCommands :: "string list option"
  claudeInsights :: "string list option"
  codeSnippets :: "string list option"
  actionItems :: "string list option"

record CompactMessage =
  msg_uuid :: string
  msg_timestamp :: string
  msg_type :: message_type
  msg_content :: string
  msg_sessionId :: string
  msg_projectPath :: "string option"
  relevanceScore :: "real option"
  finalScore :: "real option"
  msg_context :: "MessageContext option"

definition emptyContext :: MessageContext where
  "emptyContext = \<lparr>filesReferenced = None, toolsUsed = None, errorPatterns = None,
     bashCommands = None, claudeInsights = None, codeSnippets = None, actionItems = None\<rparr>"

text \<open>\<^verbatim>\<open>x || 0\<close> on an optional number.\<close>

definition orZero :: "real option \<Rightarrow> real" where
  "orZero x = (case x of None \<Rightarrow> 0 | Some v \<Rightarrow> v)"

text \<open>\<^verbatim>\<open>(message.context?.field?.length || 0) > 0\<close>\<close>

definition hasAny :: "(MessageContext \<Rightarrow> string list option) \<Rightarrow> CompactMessage \<Rightarrow> bool" where
  "hasAny field message =
     (case msg_context message of
        None \<Rightarrow> False
      | Some c \<Rightarrow> (case field c of None \<Rightarrow> False | Some xs \<Rightarrow> length xs > 0))"

section \<open>Similarity engine (SearchHelpers.calculateQuerySimilarity)\<close>

definition stopWords :: "string list" where
  "stopWords = [''the'', ''and'', ''for'', ''that'', ''this'', ''with'', ''from'', ''have'',
     ''has'', ''how'', ''what'', ''when'', ''where'', ''why'', ''can'', ''could'', ''would'',
     ''should'', ''want'', ''need'', ''help'', ''please'', ''just'', ''like'', ''some'',
     ''any'', ''all'']"

definition significantWords :: "string list \<Rightarrow> string list" where
  "significantWords ws = filter (\<lambda>w. length w \<ge> 4 \<and> w \<notin> set stopWords) ws"

definition technicalSynonyms :: "(string \<times> string list) list" where
  "technicalSynonyms = [
     (''error'', [''exception'', ''fail'', ''crash'', ''bug'', ''issue'', ''problem'']),
     (''fix'', [''resolve'', ''solve'', ''repair'', ''correct'', ''solution'']),
     (''install'', [''setup'', ''configure'', ''add'', ''create'']),
     (''build'', [''compile'', ''bundle'', ''deploy'', ''package'']),
     (''test'', [''verify'', ''check'', ''validate'', ''debug'']),
     (''typescript'', [''ts'', ''type'', ''interface'']),
     (''javascript'', [''js'', ''node'', ''npm''])]"

definition isWordSimilar :: "string \<Rightarrow> string \<Rightarrow> bool" where
  "isWordSimilar word1 word2 =
     (if \<bar>int (length word1) - int (length word2)\<bar> > 3 then False
      else
        (let minLen = min (length word1) (length word2) in
         if minLen < 4 then False
         else
           (let shared = real minLen * 0.6;
                matches = length (filter (\<lambda>(a, b). a = b) (zip word1 word2))
            in real matches \<ge> shared)))"

text \<open>The loop over the synonym table, which stops at the first entry that relates the words.\<close>

definition synonymHit :: "string \<Rightarrow> string \<Rightarrow> bool" where
  "synonymHit word1 word2 =
     list_ex (\<lambda>(key, synonyms).
        (key = word1 \<and> word2 \<in> set synonyms) \<or>
        (key = word2 \<and> word1 \<in> set synonyms) \<or>
        (word1 \<in> set synonyms \<and> word2 \<in> set synonyms)) technicalSynonyms"

text \<open>
  The body of the inner loop for one pair of words: the match score of the pair, and
  whether the pair increments \<^verbatim>\<open>significantMatches\<close>.
\<close>

definition pairScore :: "string \<Rightarrow> string \<Rightarrow> bool \<Rightarrow> bool \<Rightarrow> real \<times> bool" where
  "pairScore word1 word2 isSignificant1 isSignificant2 =
     (if word1 = word2 then (1, isSignificant1 \<and> isSignificant2)
      else if js_includes word1 word2 \<or> js_includes word2 word1 then
        (let shorter = min (length word1) (length word2);
             longer = max (length word1) (length word2)
         in if shorter \<ge> 5 \<and> real shorter / real longer \<ge> 0.6
            then (0.8 * (real shorter / real longer), isSignificant1 \<and> isSignificant2)
            else (0, False))
      else if isWordSimilar word1 word2 then (0.6, False)
      else if synonymHit word1 word2 then (0.7, isSignificant1 \<and> isSignificant2)
      else (0, False))"

text \<open>
  The inner loop over the indexed words of the second query. Its state is
  \<^verbatim>\<open>(bestMatch, bestIndex, significantMatches)\<close>; \<^verbatim>\<open>bestIndex = -1\<close> is \<open>None\<close>.
\<close>

fun innerLoop ::
  "string \<Rightarrow> bool \<Rightarrow> string list \<Rightarrow> nat set \<Rightarrow> (nat \<times> string) list \<Rightarrow>
   real \<times> nat option \<times> nat \<Rightarrow> real \<times> nat option \<times> nat" where
  "innerLoop word1 isSignificant1 significant2 matched2 [] st = st"
| "innerLoop word1 isSignificant1 significant2 matched2 ((j, word2) # rest)
     (bestMatch, bestIndex, significantMatches) =
     (if j \<in> matched2 then
        innerLoop word1 isSignificant1 significant2 matched2 rest
          (bestMatch, bestIndex, significantMatches)
      else
        (let (matchScore, counted) =
               pairScore word1 word2 isSignificant1 (word2 \<in> set significant2);
             significantMatches' =
               (if counted then significantMatches + 1 else significantMatches)
         in if matchScore > bestMatch then
              innerLoop word1 isSignificant1 significant2 matched2 rest
                (matchScore, Some j, significantMatches')
            else
              innerLoop word1 isSignificant1 significant2 matched2 rest
                (bestMatch, bestIndex, significantMatches')))"

text \<open>
  The outer loop over the words of the first query. Its state is
  \<^verbatim>\<open>(totalScore, significantMatches, matched2)\<close>.
\<close>

fun outerLoop ::
  "string list \<Rightarrow> string list \<Rightarrow> string list \<Rightarrow> string list \<Rightarrow>
   real \<times> nat \<times> nat set \<Rightarrow> real \<times> nat \<times> nat set" where
  "outerLoop significant1 significant2 words2 [] st = st"
| "outerLoop significant1 significant2 words2 (word1 # ws) (totalScore, significantMatches, matched2) =
     (case innerLoop word1 (word1 \<in> set significant1) significant2 matched2
             (zip [0..<length words2] words2) (0, None, significantMatches) of
        (bestMatch, None, significantMatches') \<Rightarrow>
          outerLoop significant1 significant2 words2 ws
            (totalScore, significantMatches', matched2)
      | (bestMatch, Some bestIndex, significantMatches') \<Rightarrow>
          outerLoop significant1 significant2 words2 ws
            (totalScore + bestMatch, significantMatches', insert bestIndex matched2))"

definition endsWith :: "string \<Rightarrow> string \<Rightarrow> bool" where
  "endsWith w suffix = (length suffix \<le> length w \<and> drop (length w - length suffix) w = suffix)"

text \<open>
  \<^verbatim>\<open>word.replace(/(ing|ed|s|ly|tion|ment)$/, '')\<close>. The six suffixes end in six
  different letters, so at most one of them ends the word.
\<close>

definition stem :: "string \<Rightarrow> string" where
  "stem word =
     (case filter (endsWith word) [''ing'', ''ed'', ''s'', ''ly'', ''tion'', ''ment''] of
        [] \<Rightarrow> word
      | suffix # _ \<Rightarrow> take (length word - length suffix) word)"

definition technicalWords :: "string list" where
  "technicalWords = [''error'', ''fix'', ''build'', ''install'', ''typescript'', ''javascript'']"

definition calculateQuerySimilarity :: "string \<Rightarrow> string \<Rightarrow> real" where
  "calculateQuerySimilarity query1 query2 =
     (let words1 = splitWords (toLowerCase query1);
          words2 = splitWords (toLowerCase query2)
      in if length words1 = 0 \<or> length words2 = 0 then 0
         else
           (let significant1 = significantWords words1;
                significant2 = significantWords words2;
                maxWords = max (length words1) (length words2);
                minWords = min (length words1) (length words2);
                (totalScore, significantMatches, matched2) =
                   outerLoop significant1 significant2 words2 words1 (0, 0, {})
            in if significantMatches < 2 \<and> length significant1 \<ge> 2 \<and> length significant2 \<ge> 2
               then 0
               else
                 (let stemmed1 = map stem words1;
                      stemmed2 = map stem words2;
                      stemmedIntersection = filter (\<lambda>w. w \<in> set stemmed2) stemmed1;
                      stemBonus =
                        (real (length stemmedIntersection) /
                         real (max (length stemmed1) (length stemmed2))) * 0.3;
                      isTechnical =
                        (list_ex (\<lambda>w. w \<in> set technicalWords) words1 \<or>
                         list_ex (\<lambda>w. w \<in> set technicalWords) words2);
                      technicalBoost = (if isTechnical then 1.2 else 1.0);
                      lengthPenalty = real minWords / real maxWords;
                      baseScore = (totalScore / real maxWords) * lengthPenalty * technicalBoost
                  in min (baseScore + stemBonus) 1.0)))"

text \<open>
  The greedy assignment itself, read off the same loops: the pairs of words that the outer
  loop commits to (a word of the first query with the word at \<^verbatim>\<open>bestIndex\<close>), and how
  many of them join two significant words. This is the count the specification describes;
  the code's counter \<^verbatim>\<open>significantMatches\<close> is kept by \<open>innerLoop\<close> instead.
\<close>

fun greedyPairs ::
  "string list \<Rightarrow> string list \<Rightarrow> string list \<Rightarrow> string list \<Rightarrow> nat set \<Rightarrow>
   (string \<times> string) list" where
  "greedyPairs significant1 significant2 words2 [] matched2 = []"
| "greedyPairs significant1 significant2 words2 (word1 # ws) matched2 =
     (case innerLoop word1 (word1 \<in> set significant1) significant2 matched2
             (zip [0..<length words2] words2) (0, None, 0) of
        (bestMatch, None, n) \<Rightarrow> greedyPairs significant1 significant2 words2 ws matched2
      | (bestMatch, Some bestIndex, n) \<Rightarrow>
          (word1, words2 ! bestIndex) #
          greedyPairs significant1 significant2 words2 ws (insert bestIndex matched2))"

definition greedySignificantMatches :: "string \<Rightarrow> string \<Rightarrow> nat" where
  "greedySignificantMatches query1 query2 =
     (let words1 = splitWords (toLowerCase query1);
          words2 = splitWords (toLowerCase query2);
          significant1 = significantWords words1;
          significant2 = significantWords words2
      in length (filter (\<lambda>(w1, w2). w1 \<in> set significant1 \<and> w2 \<in> set significant2)
                  (greedyPairs significant1 significant2 words2 words1 {})))"

section \<open>The corpus as the engine sees it\<close>

text \<open>
  Directory listing, file listing and the line decoder are collaborators of the engine.
  Each awaited call either yields its value or rejects with a fault. The listing
  utilities of the repository catch the faults of the file system themselves and answer
  with the empty list; the model admits both outcomes, a rejected call and an empty
  listing. The decoder is called without a query by the similar-query search
  (\<open>parseJsonlFile\<close>) and with the query and the time frame by the main search
  (\<open>processJsonlFile\<close>, which may answer from its cache). The clock readings and the
  date parser are part of the environment.
\<close>

datatype error = Fault string

record Corpus =
  findProjectDirectories :: "error + string list"
  findJsonlFiles :: "string \<Rightarrow> error + string list"
  parseJsonlFile :: "string \<Rightarrow> string \<Rightarrow> error + CompactMessage list"
  processJsonlFile :: "string \<Rightarrow> string \<Rightarrow> string \<Rightarrow> string option \<Rightarrow> error + CompactMessage list"
  parseDate :: "string \<Rightarrow> real option"
  rankClock :: real
  endClock :: real

section \<open>Low-value content (isLowValueContent)\<close>

text \<open>
  The three anchored patterns: \<^verbatim>\<open>/^(ok|yes|no|sure|thanks)\.?$/\<close>,
  \<^verbatim>\<open>/^error:\s*$/\<close> and \<^verbatim>\<open>/^warning:\s*$/\<close>.
\<close>

definition isShortReply :: "string \<Rightarrow> bool" where
  "isShortReply s =
     list_ex (\<lambda>w. s = w \<or> s = w @ ''.'') [''ok'', ''yes'', ''no'', ''sure'', ''thanks'']"

definition isBareLabel :: "string \<Rightarrow> string \<Rightarrow> bool" where
  "isBareLabel label s =
     (take (length label) s = label \<and> list_all isSpace (drop (length label) s))"

definition isLowValueContent :: "string \<Rightarrow> bool" where
  "isLowValueContent text =
     (let lowerContent = toLowerCase text in
      js_includes lowerContent ''local-command-stdout>(no content)'' \<or>
      js_includes lowerContent ''command-name>/doctor'' \<or>
      js_includes lowerContent ''system-reminder>'' \<or>
      js_includes lowerContent ''much better! now i can see'' \<or>
      isShortReply lowerContent \<or>
      isBareLabel ''error:'' lowerContent \<or>
      isBareLabel ''warning:'' lowerContent \<or>
      length (trim text) < 20)"

section \<open>Similar queries (findSimilarQueries)\<close>

fun findIndex :: "('a \<Rightarrow> bool) \<Rightarrow> 'a list \<Rightarrow> nat option" where
  "findIndex p [] = None"
| "findIndex p (x # xs) =
     (if p x then Some 0 else map_option Suc (findIndex p xs))"

definition isUserQuery :: "CompactMessage \<Rightarrow> bool" where
  "isUserQuery msg =
     (msg_type msg = User \<and> length (msg_content msg) > 15 \<and> length (msg_content msg) < 800 \<and>
      \<not> isLowValueContent (msg_content msg))"

text \<open>
  The look-ahead for the answer: the first assistant message with more than 50 characters
  among the messages at positions \<open>queryIndex + 1\<close> up to \<open>queryIndex + 4\<close>.
\<close>

definition findAnswer :: "CompactMessage list \<Rightarrow> CompactMessage \<Rightarrow> CompactMessage option" where
  "findAnswer messages query =
     (case findIndex (\<lambda>m. msg_uuid m = msg_uuid query) messages of
        None \<Rightarrow> None
      | Some queryIndex \<Rightarrow>
          find (\<lambda>nextMsg. msg_type nextMsg = Assistant \<and> length (msg_content nextMsg) > 50)
            (take 4 (drop (queryIndex + 1) messages)))"

definition attachAnswer :: "CompactMessage list \<Rightarrow> CompactMessage \<Rightarrow> CompactMessage" where
  "attachAnswer messages query =
     (case findAnswer messages query of
        None \<Rightarrow> query
      | Some nextMsg \<Rightarrow>
          query\<lparr>msg_context :=
            Some ((case msg_context query of None \<Rightarrow> emptyContext | Some c \<Rightarrow> c)
                    \<lparr>claudeInsights := Some [take 400 (msg_content nextMsg)]\<rparr>)\<rparr>)"

text \<open>
  The similarity is computed by \<^verbatim>\<open>SearchHelpers.calculateQuerySimilarity\<close> in
  double-precision arithmetic. The scan is written for an arbitrary function
  \<open>similarity\<close> that gives the computed value, so that what is proved of the scan does
  not rest on the rounding of that value; \<open>findSimilarQueries\<close> is the scan with the
  model of the similarity engine above.

  The loop over the user queries of one file: what it pushes onto \<^verbatim>\<open>allMessages\<close>.
\<close>

fun similarIn ::
  "(string \<Rightarrow> string \<Rightarrow> real) \<Rightarrow> string \<Rightarrow> CompactMessage list \<Rightarrow> CompactMessage list \<Rightarrow>
   CompactMessage list" where
  "similarIn similarityOf targetQuery messages [] = []"
| "similarIn similarityOf targetQuery messages (query # rest) =
     (let similarity = similarityOf targetQuery (msg_content query) in
      if similarity > 0.4 then
        attachAnswer messages (query\<lparr>relevanceScore := Some similarity\<rparr>) #
        similarIn similarityOf targetQuery messages rest
      else similarIn similarityOf targetQuery messages rest)"

text \<open>
  The limit is a number of the source language, which may be negative or fractional. The
  early exit compares the number of gathered records with \<^verbatim>\<open>limit * 4\<close>.
\<close>

fun scanFiles ::
  "(string \<Rightarrow> string \<Rightarrow> real) \<Rightarrow> Corpus \<Rightarrow> string \<Rightarrow> real \<Rightarrow> string \<Rightarrow> string list \<Rightarrow>
   CompactMessage list \<Rightarrow> error + CompactMessage list" where
  "scanFiles similarityOf env targetQuery limit projectDir [] allMessages = Inr allMessages"
| "scanFiles similarityOf env targetQuery limit projectDir (file # files) allMessages =
     (case parseJsonlFile env projectDir file of
        Inl e \<Rightarrow> Inl e
      | Inr messages \<Rightarrow>
          (let userQueries = filter isUserQuery messages;
               allMessages' = allMessages @ similarIn similarityOf targetQuery messages userQueries
           in if real (length allMessages') \<ge> limit * 4 then Inr allMessages'
              else scanFiles similarityOf env targetQuery limit projectDir files allMessages'))"

fun scanProjects ::
  "(string \<Rightarrow> string \<Rightarrow> real) \<Rightarrow> Corpus \<Rightarrow> string \<Rightarrow> real \<Rightarrow> string list \<Rightarrow>
   CompactMessage list \<Rightarrow> error + CompactMessage list" where
  "scanProjects similarityOf env targetQuery limit [] allMessages = Inr allMessages"
| "scanProjects similarityOf env targetQuery limit (projectDir # dirs) allMessages =
     (case findJsonlFiles env projectDir of
        Inl e \<Rightarrow> Inl e
      | Inr jsonlFiles \<Rightarrow>
          (case scanFiles similarityOf env targetQuery limit projectDir (take 5 jsonlFiles)
                  allMessages of
             Inl e \<Rightarrow> Inl e
           | Inr allMessages' \<Rightarrow>
               if real (length allMessages') \<ge> limit * 4 then Inr allMessages'
               else scanProjects similarityOf env targetQuery limit dirs allMessages'))"

text \<open>
  The conversion of a number to an integer that \<^verbatim>\<open>slice\<close> applies to its bounds
  (truncation towards zero), and \<^verbatim>\<open>xs.slice(0, end)\<close>: a negative bound counts from
  the end of the list.
\<close>

definition jsToInteger :: "real \<Rightarrow> int" where
  "jsToInteger x = (if x < 0 then \<lceil>x\<rceil> else \<lfloor>x\<rfloor>)"

definition js_slice0 :: "'a list \<Rightarrow> real \<Rightarrow> 'a list" where
  "js_slice0 xs end =
     (let relativeEnd = jsToInteger end;
          len = int (length xs);
          final = (if relativeEnd < 0 then max (len + relativeEnd) 0 else min relativeEnd len)
      in take (nat final) xs)"

text \<open>
  The sort is the stable sort of the source language, descending in
  \<^verbatim>\<open>relevanceScore || 0\<close>. A fault anywhere in the scan is caught and the operation
  returns the empty list.
\<close>

definition findSimilarQueriesWith ::
  "(string \<Rightarrow> string \<Rightarrow> real) \<Rightarrow> Corpus \<Rightarrow> string \<Rightarrow> real \<Rightarrow> CompactMessage list" where
  "findSimilarQueriesWith similarityOf env targetQuery limit =
     (case findProjectDirectories env of
        Inl e \<Rightarrow> []
      | Inr projectDirs \<Rightarrow>
          (case scanProjects similarityOf env targetQuery limit (take 8 projectDirs) [] of
             Inl e \<Rightarrow> []
           | Inr allMessages \<Rightarrow>
               js_slice0
                 (sort_key (\<lambda>m. - orZero (relevanceScore m))
                    (filter (\<lambda>msg. \<not> isLowValueContent (msg_content msg)) allMessages))
                 limit))"

definition findSimilarQueries :: "Corpus \<Rightarrow> string \<Rightarrow> real \<Rightarrow> CompactMessage list" where
  "findSimilarQueries env targetQuery limit =
     findSimilarQueriesWith calculateQuerySimilarity env targetQuery limit"

section \<open>Query intent (analyzeQueryIntent)\<close>

datatype query_type = ErrorQuery | ImplementationQuery | AnalysisQuery | GeneralQuery

datatype urgency = High | Medium

datatype scope = Broad | Focused

record QueryAnalysis =
  qa_type :: query_type
  qa_urgency :: urgency
  qa_scope :: scope
  expectsCode :: bool
  expectsSolution :: bool
  qa_keywords :: "string list"
  semanticBoosts :: "(string \<times> real) list"

definition classifyQueryType :: "string \<Rightarrow> query_type" where
  "classifyQueryType query =
     (let lowerQuery = toLowerCase query in
      if js_includes lowerQuery ''error'' \<or> js_includes lowerQuery ''bug'' \<or>
         js_includes lowerQuery ''fix'' \<or> js_includes lowerQuery ''issue''
      then ErrorQuery
      else if js_includes lowerQuery ''implement'' \<or> js_includes lowerQuery ''create'' \<or>
              js_includes lowerQuery ''build'' \<or> js_includes lowerQuery ''add''
      then ImplementationQuery
      else if js_includes lowerQuery ''how'' \<or> js_includes lowerQuery ''why'' \<or>
              js_includes lowerQuery ''analyze'' \<or> js_includes lowerQuery ''understand''
      then AnalysisQuery
      else GeneralQuery)"

text \<open>The boosts in the order in which the object receives its keys.\<close>

definition getSemanticBoosts :: "string \<Rightarrow> (string \<times> real) list" where
  "getSemanticBoosts query =
     (if js_includes query ''error'' then [(''errorResolution'', 3.0)] else []) @
     (if js_includes query ''implement'' then [(''implementation'', 2.5)] else []) @
     (if js_includes query ''optimize'' then [(''optimization'', 2.0)] else []) @
     (if js_includes query ''fix'' then [(''solutions'', 2.8)] else []) @
     (if js_includes query ''file'' then [(''fileOperations'', 2.0)] else []) @
     (if js_includes query ''tool'' then [(''toolUsage'', 2.2)] else [])"

definition analyzeQueryIntent :: "string \<Rightarrow> QueryAnalysis" where
  "analyzeQueryIntent query =
     (let lowerQuery = toLowerCase query in
      \<lparr>qa_type = classifyQueryType query,
       qa_urgency =
         (if js_includes lowerQuery ''error'' \<or> js_includes lowerQuery ''failed''
          then High else Medium),
       qa_scope =
         (if js_includes lowerQuery ''project'' \<or> js_includes lowerQuery ''all''
          then Broad else Focused),
       expectsCode =
         (js_includes lowerQuery ''function'' \<or> js_includes lowerQuery ''implement'' \<or>
          js_includes lowerQuery ''code''),
       expectsSolution =
         (js_includes lowerQuery ''how'' \<or> js_includes lowerQuery ''fix'' \<or>
          js_includes lowerQuery ''solve''),
       qa_keywords = splitWords lowerQuery,
       semanticBoosts = getSemanticBoosts lowerQuery\<rparr>)"

section \<open>Candidate gathering\<close>

definition matchesQueryIntent :: "CompactMessage \<Rightarrow> QueryAnalysis \<Rightarrow> bool" where
  "matchesQueryIntent message analysis =
     (let text = toLowerCase (msg_content message) in
      case qa_type analysis of
        ErrorQuery \<Rightarrow>
          js_includes text ''error'' \<or> js_includes text ''fix'' \<or>
          js_includes text ''solution'' \<or> hasAny errorPatterns message
      | ImplementationQuery \<Rightarrow>
          js_includes text ''implement'' \<or> js_includes text ''create'' \<or>
          js_includes text ''function'' \<or> hasAny codeSnippets message
      | AnalysisQuery \<Rightarrow>
          js_includes text ''analyze'' \<or> js_includes text ''understand'' \<or>
          js_includes text ''explain'' \<or> (msg_type message = Assistant \<and> length text > 100)
      | GeneralQuery \<Rightarrow>
          hasAny toolsUsed message \<or> (msg_type message = Assistant \<and> length text > 80))"

definition noisePatterns :: "string list" where
  "noisePatterns = [
     ''this session is being continued'',
     ''caveat:'',
     ''command-name>'',
     ''local-command-stdout'',
     ''system-reminder'',
     ''command-message>'',
     ''much better! now i can see'',
     ''package.js'',
     ''export interface'',
     ''you are claude code'',
     ''read-only mode'',
     ''i cannot make changes'',
     ''i'' @ [CHR 0x27] @ ''m in plan mode'',
     ''hello! i'' @ [CHR 0x27] @ ''m claude'',
     ''i am claude'',
     ''ready to help you'',
     ''what would you like me to'',
     ''how can i assist'',
     ''i understand that i'' @ [CHR 0x27] @ ''m'']"

definition isHighlyRelevant :: "CompactMessage \<Rightarrow> string \<Rightarrow> QueryAnalysis \<Rightarrow> bool" where
  "isHighlyRelevant message query analysis =
     (let text = toLowerCase (msg_content message) in
      if list_ex (\<lambda>pattern. js_includes text pattern) noisePatterns \<or> length text < 40
      then False
      else if orZero (relevanceScore message) < 0.3 then False
      else matchesQueryIntent message analysis)"

text \<open>\<^verbatim>\<open>Math.ceil(a / b)\<close> for a positive divisor.\<close>

definition ceilDiv :: "nat \<Rightarrow> nat \<Rightarrow> nat" where
  "ceilDiv a b = nat \<lceil>real a / real b\<rceil>"

text \<open>
  The loop of \<^verbatim>\<open>processProjectFocused\<close> over the priority files. A fault of the decoder
  is caught by the enclosing handler, which keeps the messages gathered so far.
\<close>

fun focusedFiles ::
  "Corpus \<Rightarrow> string \<Rightarrow> string \<Rightarrow> QueryAnalysis \<Rightarrow> string option \<Rightarrow> nat \<Rightarrow> nat \<Rightarrow>
   string list \<Rightarrow> CompactMessage list \<Rightarrow> CompactMessage list" where
  "focusedFiles env projectDir query analysis timeframe targetPerProject nFiles [] messages =
     messages"
| "focusedFiles env projectDir query analysis timeframe targetPerProject nFiles (file # files)
     messages =
     (case processJsonlFile env projectDir file query timeframe of
        Inl e \<Rightarrow> messages
      | Inr fileMessages \<Rightarrow>
          (let relevant =
                 take (ceilDiv targetPerProject nFiles)
                   (filter (\<lambda>msg. matchesQueryIntent msg analysis)
                      (filter (\<lambda>msg. orZero (relevanceScore msg) \<ge> 1) fileMessages));
               messages' = messages @ relevant
           in if length messages' \<ge> targetPerProject then messages'
              else focusedFiles env projectDir query analysis timeframe targetPerProject
                     nFiles files messages'))"

definition processProjectFocused ::
  "Corpus \<Rightarrow> string \<Rightarrow> string \<Rightarrow> QueryAnalysis \<Rightarrow> string option \<Rightarrow> nat \<Rightarrow>
   CompactMessage list" where
  "processProjectFocused env projectDir query analysis timeframe targetPerProject =
     (case findJsonlFiles env projectDir of
        Inl e \<Rightarrow> []
      | Inr jsonlFiles \<Rightarrow>
          (let priorityFiles = take (min 4 (length jsonlFiles)) jsonlFiles in
           focusedFiles env projectDir query analysis timeframe targetPerProject
             (length priorityFiles) priorityFiles []))"

text \<open>The aggregation loop of \<^verbatim>\<open>gatherRelevantCandidates\<close> over the settled results.\<close>

fun aggregate ::
  "string \<Rightarrow> QueryAnalysis \<Rightarrow> nat \<Rightarrow> CompactMessage list list \<Rightarrow> CompactMessage list \<Rightarrow>
   CompactMessage list" where
  "aggregate query analysis targetCount [] candidates = candidates"
| "aggregate query analysis targetCount (dirCandidates # results) candidates =
     (let dirMessages = filter (\<lambda>msg. isHighlyRelevant msg query analysis) dirCandidates;
          candidates' = candidates @ dirMessages
      in if length candidates' \<ge> targetCount then candidates'
         else aggregate query analysis targetCount results candidates')"

definition gatherRelevantCandidates ::
  "Corpus \<Rightarrow> string list \<Rightarrow> string \<Rightarrow> QueryAnalysis \<Rightarrow> string option \<Rightarrow> nat \<Rightarrow>
   CompactMessage list" where
  "gatherRelevantCandidates env projectDirs query analysis timeframe targetCount =
     aggregate query analysis targetCount
       (map (\<lambda>projectDir.
               processProjectFocused env projectDir query analysis timeframe
                 (ceilDiv targetCount (length projectDirs)))
          projectDirs)
       []"

section \<open>Re-ranking and deduplication (selectTopRelevantResults)\<close>

definition messageMatchesSemanticType :: "CompactMessage \<Rightarrow> string \<Rightarrow> bool" where
  "messageMatchesSemanticType message semanticType =
     (let text = toLowerCase (msg_content message) in
      if semanticType = ''errorResolution'' then
        js_includes text ''error'' \<or> js_includes text ''exception'' \<or>
        hasAny errorPatterns message
      else if semanticType = ''implementation'' then
        js_includes text ''function'' \<or> js_includes text ''implement'' \<or>
        hasAny codeSnippets message
      else if semanticType = ''optimization'' then
        js_includes text ''optimize'' \<or> js_includes text ''performance'' \<or>
        js_includes text ''faster''
      else if semanticType = ''solutions'' then
        js_includes text ''solution'' \<or> js_includes text ''fix'' \<or> js_includes text ''resolve''
      else if semanticType = ''fileOperations'' then hasAny filesReferenced message
      else if semanticType = ''toolUsage'' then hasAny toolsUsed message
      else False)"

text \<open>The coverage boost applied to the base score.\<close>

definition coverageBoost :: "string \<Rightarrow> string list \<Rightarrow> real \<Rightarrow> real" where
  "coverageBoost contentLower queryTerms score =
     (let matchCount = length (filter (\<lambda>term. js_includes contentLower term) queryTerms);
          coverageRatio =
            (if length queryTerms > 0 then real matchCount / real (length queryTerms) else 1)
      in if coverageRatio \<ge> 0.5 then
           fold (\<lambda>term s. if js_includes contentLower term then s * 2.0 else s) queryTerms score
         else if matchCount > 0 then score * ((1 + real matchCount * 0.5) * coverageRatio)
         else score * 0.1)"

definition semanticBoost :: "CompactMessage \<Rightarrow> (string \<times> real) list \<Rightarrow> real \<Rightarrow> real" where
  "semanticBoost msg boosts score =
     fold (\<lambda>(semanticType, boost) s.
             if messageMatchesSemanticType msg semanticType then s * boost else s)
       boosts score"

text \<open>
  The recency boost: the message's time stamp is parsed, and a time stamp that does not
  parse compares false.
\<close>

definition recencyBoost :: "Corpus \<Rightarrow> QueryAnalysis \<Rightarrow> CompactMessage \<Rightarrow> real \<Rightarrow> real" where
  "recencyBoost env analysis msg score =
     (if qa_urgency analysis = High then
        (case parseDate env (msg_timestamp msg) of
           None \<Rightarrow> score
         | Some t \<Rightarrow>
             (let hoursDiff = (rankClock env - t) / (1000 * 60 * 60) in
              if hoursDiff < 24 then score * 1.5 else score))
      else score)"

text \<open>The function mapped over the candidates: it sets \<^verbatim>\<open>finalScore\<close>.\<close>

definition scoreCandidate ::
  "Corpus \<Rightarrow> string \<Rightarrow> QueryAnalysis \<Rightarrow> CompactMessage \<Rightarrow> CompactMessage" where
  "scoreCandidate env query analysis msg =
     (let score = orZero (relevanceScore msg);
          queryWords = splitWords query
      in if length queryWords \<ge> 2 \<and> score = 0 then msg\<lparr>finalScore := Some 0\<rparr>
         else
           (let contentLower = toLowerCase (msg_content msg);
                queryTerms = splitWords (toLowerCase query);
                score1 = coverageBoost contentLower queryTerms score;
                score2 = semanticBoost msg (semanticBoosts analysis) score1;
                score3 = recencyBoost env analysis msg score2
            in msg\<lparr>finalScore := Some score3\<rparr>))"

text \<open>Runs of characters of a class replaced by one character: \<^verbatim>\<open>replace(/\d+/g, 'N')\<close>.\<close>

fun collapseRuns :: "(char \<Rightarrow> bool) \<Rightarrow> char \<Rightarrow> bool \<Rightarrow> string \<Rightarrow> string" where
  "collapseRuns p r inRun [] = []"
| "collapseRuns p r inRun (c # cs) =
     (if p c then
        (if inRun then collapseRuns p r True cs else r # collapseRuns p r True cs)
      else c # collapseRuns p r False cs)"

definition contentHash :: "string \<Rightarrow> string" where
  "contentHash text =
     take 80
       (collapseRuns isSpace (CHR '' '') False
          (filter (\<lambda>c. c \<noteq> CHR 0x22 \<and> c \<noteq> CHR 0x27)
             (collapseRuns isDigit (CHR ''N'') False (toLowerCase text))))"

fun typeName :: "message_type \<Rightarrow> string" where
  "typeName User = ''user''"
| "typeName Assistant = ''assistant''"
| "typeName ToolUse = ''tool_use''"
| "typeName ToolResult = ''tool_result''"

text \<open>
  \<^verbatim>\<open>(message.context?.toolsUsed || []).sort()\<close> sorts the message's own tool list in
  place. \<open>sortedTools\<close> is the value of the expression, \<open>withSortedTools\<close> the message
  after the call.
\<close>

definition sortedTools :: "CompactMessage \<Rightarrow> string list" where
  "sortedTools message =
     (case msg_context message of
        None \<Rightarrow> []
      | Some c \<Rightarrow> (case toolsUsed c of None \<Rightarrow> [] | Some ts \<Rightarrow> sort ts))"

definition withSortedTools :: "CompactMessage \<Rightarrow> CompactMessage" where
  "withSortedTools message =
     message\<lparr>msg_context :=
       map_option (\<lambda>c. c\<lparr>toolsUsed := map_option sort (toolsUsed c)\<rparr>) (msg_context message)\<rparr>"

definition createIntelligentSignature :: "CompactMessage \<Rightarrow> string" where
  "createIntelligentSignature message =
     (let hash = contentHash (msg_content message);
          tools = join_with ''|'' (sortedTools message);
          files = (if hasAny filesReferenced message then ''files'' else ''nofiles'')
      in typeName (msg_type message) @ '':'' @ tools @ '':'' @ files @ '':'' @ hash)"

text \<open>
  The map \<^verbatim>\<open>seen\<close> keeps its keys in insertion order; setting an existing key keeps the
  key's place. It is an association list here.
\<close>

fun mapSet :: "'k \<Rightarrow> 'v \<Rightarrow> ('k \<times> 'v) list \<Rightarrow> ('k \<times> 'v) list" where
  "mapSet k v [] = [(k, v)]"
| "mapSet k v ((k', v') # rest) =
     (if k' = k then (k, v) # rest else (k', v') # mapSet k v rest)"

definition dedupStep ::
  "CompactMessage \<Rightarrow> (string \<times> CompactMessage) list \<Rightarrow> (string \<times> CompactMessage) list" where
  "dedupStep message seen =
     (let signature = createIntelligentSignature message;
          message' = withSortedTools message
      in case map_of seen signature of
           None \<Rightarrow> mapSet signature message' seen
         | Some existing \<Rightarrow>
             if orZero (finalScore message') > orZero (finalScore existing)
             then mapSet signature message' seen
             else seen)"

definition intelligentDeduplicate :: "CompactMessage list \<Rightarrow> CompactMessage list" where
  "intelligentDeduplicate messages = map snd (fold dedupStep messages [])"

definition selectTopRelevantResults ::
  "Corpus \<Rightarrow> CompactMessage list \<Rightarrow> string \<Rightarrow> QueryAnalysis \<Rightarrow> nat \<Rightarrow> CompactMessage list" where
  "selectTopRelevantResults env candidates query analysis limit =
     (let scoredCandidates = map (scoreCandidate env query analysis) candidates;
          sorted = sort_key (\<lambda>m. - orZero (finalScore m)) scoredCandidates;
          deduped = intelligentDeduplicate sorted
      in take limit deduped)"

section \<open>The search operation (searchConversations)\<close>

record SearchResult =
  messages :: "CompactMessage list"
  totalResults :: nat
  searchQuery :: string
  executionTime :: real

text \<open>\<^verbatim>\<open>msg.finalScore || msg.relevanceScore || 0\<close>\<close>

definition displayScore :: "CompactMessage \<Rightarrow> real" where
  "displayScore msg =
     (if orZero (finalScore msg) \<noteq> 0 then orZero (finalScore msg)
      else orZero (relevanceScore msg))"

definition emptyResult :: "Corpus \<Rightarrow> string \<Rightarrow> real \<Rightarrow> SearchResult" where
  "emptyResult env query startTime =
     \<lparr>messages = [], totalResults = 0, searchQuery = query,
      executionTime = endClock env - startTime\<rparr>"

text \<open>
  A fault raised inside the operation is logged and thrown again by its own handler, so
  it reaches the caller: the result is a fault or a search result.
\<close>

definition performOptimizedSearch ::
  "Corpus \<Rightarrow> string \<Rightarrow> QueryAnalysis \<Rightarrow> nat \<Rightarrow> real \<Rightarrow> string option \<Rightarrow> string option \<Rightarrow>
   error + SearchResult" where
  "performOptimizedSearch env query analysis limit startTime projectFilter timeframe =
     (case findProjectDirectories env of
        Inl e \<Rightarrow> Inl e
      | Inr projectDirs \<Rightarrow>
          (let expandedDirs = projectDirs in
           if length query < 3 then Inr (emptyResult env query startTime)
           else
             (let maxProjects = min (length expandedDirs) (max 8 (ceilDiv limit 2));
                  targetDirs =
                    (case projectFilter of
                       None \<Rightarrow> take maxProjects expandedDirs
                     | Some f \<Rightarrow>
                         if f \<noteq> [] then filter (\<lambda>dir. js_includes dir f) expandedDirs
                         else take maxProjects expandedDirs);
                  candidates =
                    gatherRelevantCandidates env targetDirs query analysis timeframe (limit * 2);
                  topRelevant = selectTopRelevantResults env candidates query analysis limit;
                  qualityResults =
                    filter (\<lambda>msg. displayScore msg \<ge> 1.5 \<and> length (msg_content msg) \<ge> 40 \<and>
                                   \<not> isLowValueContent (msg_content msg)) topRelevant
              in Inr \<lparr>messages = qualityResults, totalResults = length candidates,
                      searchQuery = query, executionTime = endClock env - startTime\<rparr>)))"

definition searchConversations ::
  "Corpus \<Rightarrow> real \<Rightarrow> string \<Rightarrow> string option \<Rightarrow> string option \<Rightarrow> nat \<Rightarrow> SearchResult" where
  "searchConversations env startTime query projectFilter timeframe limit =
     (let queryAnalysis = analyzeQueryIntent query;
          requestedLimit = limit
      in case performOptimizedSearch env query queryAnalysis requestedLimit startTime
                projectFilter timeframe of
           Inr result \<Rightarrow> result
         | Inl e \<Rightarrow> emptyResult env query startTime)"

section \<open>Adaptive truncation (smartContentPreservation)\<close>

datatype content_type = Code | ErrorText | Technical | Conversational

text \<open>
  The strategies of the over-budget path that are driven by regular expressions
  (sentence extraction, content-type detection, and the code, error and technical
  preservers) are parameters of the model. The conversational strategy
  \<^verbatim>\<open>intelligentTruncation\<close> works on plain strings and is modelled in full.
\<close>

record Strategies =
  extractMostValuableContent :: "string \<Rightarrow> int \<Rightarrow> string"
  detectContentType :: "string \<Rightarrow> content_type"
  preserveCodeBlocks :: "string \<Rightarrow> int \<Rightarrow> string"
  preserveErrorMessages :: "string \<Rightarrow> int \<Rightarrow> string"
  preserveTechnicalContent :: "string \<Rightarrow> int \<Rightarrow> string"

text \<open>
  \<^verbatim>\<open>s.lastIndexOf(pat, pos)\<close>: the largest index not above the clamped position at
  which the pattern starts, or -1.
\<close>

definition js_lastIndexOf :: "string \<Rightarrow> string \<Rightarrow> int \<Rightarrow> int" where
  "js_lastIndexOf s pat pos =
     (let start = min (max pos 0) (int (length s) - int (length pat)) in
      case filter (\<lambda>i. take (length pat) (drop i s) = pat) (rev [0..<nat (start + 1)]) of
        [] \<Rightarrow> - 1
      | i # _ \<Rightarrow> int i)"

definition boundaries :: "string list" where
  "boundaries = [[CHR 0x0A, CHR 0x0A], ''. '', ''! '', ''? '', [CHR 0x0A], '', '', '' '']"

definition intelligentTruncation :: "string \<Rightarrow> int \<Rightarrow> string" where
  "intelligentTruncation text maxLength =
     (if int (length text) \<le> maxLength then text
      else
        (case find (\<lambda>boundary.
                      real_of_int (js_lastIndexOf text boundary (maxLength - 3)) >
                      real_of_int maxLength * 0.7) boundaries of
           Some boundary \<Rightarrow>
             take (nat (js_lastIndexOf text boundary (maxLength - 3))) text @ ''...''
         | None \<Rightarrow> take (nat (maxLength - 3)) text @ ''...''))"

definition smartContentPreservation :: "Strategies \<Rightarrow> string \<Rightarrow> int \<Rightarrow> string" where
  "smartContentPreservation st text maxLength =
     (if int (length text) \<le> maxLength then text
      else
        (let valuableContent = extractMostValuableContent st text maxLength in
         if int (length valuableContent) \<le> maxLength then valuableContent
         else
           (case detectContentType st text of
              Code \<Rightarrow> preserveCodeBlocks st text maxLength
            | ErrorText \<Rightarrow> preserveErrorMessages st text maxLength
            | Technical \<Rightarrow> preserveTechnicalContent st text maxLength
            | Conversational \<Rightarrow> intelligentTruncation text maxLength)))"

section \<open>Auxiliary notions for the proofs\<close>

text \<open>
  The words of the second query that the greedy assignment has not used yet, given the
  set of used indices.
\<close>

definition unmatched :: "nat set \<Rightarrow> (nat \<times> string) list \<Rightarrow> string list" where
  "unmatched M ps = map snd (filter (\<lambda>(j, w). j \<notin> M) ps)"

text \<open>
  The invariant of the map \<^verbatim>\<open>seen\<close>: its keys are distinct, every key is the signature
  of the message stored under it, and every stored message has its tool list sorted.
\<close>

definition seenOk :: "(string \<times> CompactMessage) list \<Rightarrow> bool" where
  "seenOk seen \<longleftrightarrow>
     distinct (map fst seen) \<and>
     list_all (\<lambda>(k, m). k = createIntelligentSignature m \<and> withSortedTools m = m) seen"

text \<open>What every record pushed by the similar-query scan satisfies.\<close>

definition similarOk :: "(string \<Rightarrow> string \<Rightarrow> real) \<Rightarrow> string \<Rightarrow> CompactMessage \<Rightarrow> bool" where
  "similarOk similarityOf targetQuery m \<longleftrightarrow>
     msg_type m = User \<and> 15 < length (msg_content m) \<and> length (msg_content m) < 800 \<and>
     relevanceScore m = Some (similarityOf targetQuery (msg_content m)) \<and>
     0.4 < similarityOf targetQuery (msg_content m)"

section \<open>A small corpus\<close>

text \<open>
  One project with one session file that holds one assistant message and one user
  question. The assistant message carries the relevance score that the scorer gives it
  for the query \<^verbatim>\<open>"ab "\<close> (see \<open>exampleMessage_score\<close> below).
\<close>

definition exampleText :: string where
  "exampleText =
     ''I called the Read tool to grab the config from src/app.ts and then fixed the tab order''"

definition exampleRaw :: ClaudeMessage where
  "exampleRaw =
     \<lparr>cm_type = Assistant, cm_message = Some (StringContent exampleText),
      cm_cwd = ''/home/user/app''\<rparr>"

definition exampleMessage :: CompactMessage where
  "exampleMessage =
     \<lparr>msg_uuid = ''u2'', msg_timestamp = ''2025-01-01T00:00:00.000Z'', msg_type = Assistant,
      msg_content = exampleText, msg_sessionId = ''s1'',
      msg_projectPath = Some ''/home/user/app'', relevanceScore = Some 8, finalScore = None,
      msg_context =
        Some (emptyContext\<lparr>filesReferenced := Some [''src/app.ts''],
                toolsUsed := Some [''Read''],
                actionItems := Some [''fixed the tab order'']\<rparr>)\<rparr>"

definition exampleQuestion :: CompactMessage where
  "exampleQuestion =
     \<lparr>msg_uuid = ''u1'', msg_timestamp = ''2025-01-01T00:00:00.000Z'', msg_type = User,
      msg_content = ''How do I fix the docker build error'', msg_sessionId = ''s1'',
      msg_projectPath = Some ''/home/user/app'', relevanceScore = Some 0, finalScore = None,
      msg_context = None\<rparr>"

definition exampleCorpus :: Corpus where
  "exampleCorpus =
     \<lparr>findProjectDirectories = Inr [''-home-user-app''],
      findJsonlFiles = (\<lambda>projectDir. Inr [''s1.jsonl'']),
      parseJsonlFile = (\<lambda>projectDir file. Inr [exampleQuestion, exampleMessage]),
      processJsonlFile = (\<lambda>projectDir file query timeframe. Inr [exampleQuestion, exampleMessage]),
      parseDate = (\<lambda>s. Some 0),
      rankClock = 1000,
      endClock = 1005\<rparr>"

text \<open>A corpus whose enumeration raises a fault.\<close>

definition faultyCorpus :: Corpus where
  "faultyCorpus = exampleCorpus\<lparr>findProjectDirectories := Inl (Fault ''EACCES'')\<rparr>"

text \<open>A corpus whose session file holds a second question, similar to the first.\<close>

definition exampleQuestion2 :: CompactMessage where
  "exampleQuestion2 =
     \<lparr>msg_uuid = ''u3'', msg_timestamp = ''2025-01-01T00:05:00.000Z'', msg_type = User,
      msg_content = ''Please fix the docker build error now'', msg_sessionId = ''s1'',
      msg_projectPath = Some ''/home/user/app'', relevanceScore = Some 0, finalScore = None,
      msg_context = None\<rparr>"

definition twoQuestionCorpus :: Corpus where
  "twoQuestionCorpus =
     exampleCorpus\<lparr>parseJsonlFile :=
       (\<lambda>projectDir file. Inr [exampleQuestion, exampleMessage, exampleQuestion2])\<rparr>"

section \<open>Properties of the term matcher\<close>

lemma scanWords_iff: "scanWords t ws \<longleftrightarrow> list_ex (wordHits t) ws"
  by (induction ws) auto

lemmas char_eval =
  toLowerCase_def toUpperCase_def lowerChar_def upperChar_def upperChars_def lowerChars_def
  digitChars_def isSpace_def isWordChar_def

lemmas matcher_eval =
  matchesTechTerm_def split_re_def isTechDelim_def wordHits_def cleanWordOf_def
  isNormalCase_def titleCase_def char_eval

text \<open>
  C3. The term matcher answers true exactly when some word of the content, once cleaned,
  is non-empty, equals the term up to case, and is all lower case, all upper case or
  title case; a word cased otherwise is passed over and the scan goes on. So
  "a ReAct pattern" does not match "react", while "a React pattern", "a REACT pattern"
  and "ReAct or react" do.
\<close>

theorem matchesTechTerm_casing_gate:
  "(matchesTechTerm content term \<longleftrightarrow>
      list_ex (\<lambda>word. cleanWordOf word \<noteq> [] \<and>
                       toLowerCase (cleanWordOf word) = toLowerCase term \<and>
                       (cleanWordOf word = toLowerCase (cleanWordOf word) \<or>
                        cleanWordOf word = toUpperCase (cleanWordOf word) \<or>
                        cleanWordOf word =
                          toUpperCase (take 1 (cleanWordOf word)) @
                          toLowerCase (drop 1 (cleanWordOf word))))
        (split_re isTechDelim content)) \<and>
   matchesTechTerm ''a ReAct pattern'' ''react'' = False \<and>
   matchesTechTerm ''a React pattern'' ''react'' = True \<and>
   matchesTechTerm ''a REACT pattern'' ''react'' = True \<and>
   matchesTechTerm ''ReAct or react'' ''react'' = True"
proof -
  have general: "matchesTechTerm content term \<longleftrightarrow>
      list_ex (\<lambda>word. cleanWordOf word \<noteq> [] \<and>
                       toLowerCase (cleanWordOf word) = toLowerCase term \<and>
                       (cleanWordOf word = toLowerCase (cleanWordOf word) \<or>
                        cleanWordOf word = toUpperCase (cleanWordOf word) \<or>
                        cleanWordOf word =
                          toUpperCase (take 1 (cleanWordOf word)) @
                          toLowerCase (drop 1 (cleanWordOf word))))
        (split_re isTechDelim content)"
    unfolding matchesTechTerm_def scanWords_iff wordHits_def isNormalCase_def titleCase_def
    by (simp add: Let_def)
  have e1: "matchesTechTerm ''a ReAct pattern'' ''react'' = False"
    by (simp add: matcher_eval)
  have e2: "matchesTechTerm ''a React pattern'' ''react'' = True"
    by (simp add: matcher_eval)
  have e3: "matchesTechTerm ''a REACT pattern'' ''react'' = True"
    by (simp add: matcher_eval)
  have e4: "matchesTechTerm ''ReAct or react'' ''react'' = True"
    by (simp add: matcher_eval)
  from general e1 e2 e3 e4 show ?thesis by blast
qed

section \<open>Properties of the relevance scorer\<close>

text \<open>
  C2. When the query holds at least one strict-core term and the term matcher finds none
  of them in the record's content, the scorer returns exactly 0, whatever else the record
  and the query share.
\<close>

theorem strict_core_veto:
  assumes "strictCoreTerms query \<noteq> []"
    and "\<forall>t \<in> set (strictCoreTerms query). \<not> matchesTechTerm (contentOf message) t"
  shows "calculateRelevanceScore message query projectPath = 0"
proof -
  from assms(2) have "filter (matchesTechTerm (contentOf message)) (strictCoreTerms query) = []"
    by (simp add: filter_empty_conv)
  then have "countMatches (contentOf message) (strictCoreTerms query) = 0"
    by (simp add: countMatches_def)
  with assms(1) show ?thesis
    by (simp add: calculateRelevanceScore_def Let_def)
qed

text \<open>
  Witness of C2: the query "react hooks optimization" names the strict-core term "react",
  the record "ReAct agent pattern implementation" holds it only with inner capitals, and
  the score is 0 although "pattern" and "implementation" are in the record.
\<close>

theorem strict_core_veto_witness:
  "strictCoreTerms ''react hooks optimization'' = [''react''] \<and>
   \<not> matchesTechTerm
       (contentOf \<lparr>cm_type = Assistant,
                    cm_message = Some (StringContent ''ReAct agent pattern implementation''),
                    cm_cwd = ''/home/user/app''\<rparr>) ''react'' \<and>
   calculateRelevanceScore
     \<lparr>cm_type = Assistant,
      cm_message = Some (StringContent ''ReAct agent pattern implementation''),
      cm_cwd = ''/home/user/app''\<rparr>
     ''react hooks optimization'' None = 0"
proof -
  let ?m = "\<lparr>cm_type = Assistant,
             cm_message = Some (StringContent ''ReAct agent pattern implementation''),
             cm_cwd = ''/home/user/app''\<rparr>"
  have terms: "strictCoreTerms ''react hooks optimization'' = [''react'']"
    by (simp add: strictCoreTerms_def splitWords_def split_re_def coreTechPatterns_def
        coreTechNames_def char_eval)
  have miss: "\<not> matchesTechTerm (contentOf ?m) ''react''"
    by (simp add: contentOf_def matcher_eval)
  from terms miss have "calculateRelevanceScore ?m ''react hooks optimization'' None = 0"
    using strict_core_veto [of "''react hooks optimization''" ?m None] by simp
  with terms miss show ?thesis by blast
qed

section \<open>Properties of the adaptive truncation\<close>

text \<open>
  C7. A text strictly shorter than the budget is returned unchanged, character for
  character, whatever the strategies of the over-budget path are.
\<close>

theorem truncate_short_text_unchanged:
  assumes "int (length text) < budget"
  shows "smartContentPreservation st text budget = text"
  using assms by (simp add: smartContentPreservation_def)

theorem truncate_short_text_unchanged_witness:
  "int (length ''fix the build'') < 14 \<and>
   smartContentPreservation
     \<lparr>extractMostValuableContent = (\<lambda>t n. take (nat n) t),
      detectContentType = (\<lambda>t. Conversational),
      preserveCodeBlocks = (\<lambda>t n. take (nat n) t),
      preserveErrorMessages = (\<lambda>t n. take (nat n) t),
      preserveTechnicalContent = (\<lambda>t n. take (nat n) t)\<rparr>
     ''fix the build'' 14 = ''fix the build''"
  using truncate_short_text_unchanged
    [of "''fix the build''" 14
        "\<lparr>extractMostValuableContent = (\<lambda>t n. take (nat n) t),
          detectContentType = (\<lambda>t. Conversational),
          preserveCodeBlocks = (\<lambda>t n. take (nat n) t),
          preserveErrorMessages = (\<lambda>t n. take (nat n) t),
          preserveTechnicalContent = (\<lambda>t n. take (nat n) t)\<rparr>"]
  by simp

section \<open>Properties of the deduplication\<close>

lemma withSortedTools_idem: "withSortedTools (withSortedTools m) = withSortedTools m"
  by (cases "msg_context m")
     (auto simp: withSortedTools_def option.map_comp comp_def sorted_sort_id)

lemma sortedTools_withSortedTools: "sortedTools (withSortedTools m) = sortedTools m"
  by (auto simp: withSortedTools_def sortedTools_def sorted_sort_id split: option.splits)

lemma hasAny_files_withSortedTools:
  "hasAny filesReferenced (withSortedTools m) = hasAny filesReferenced m"
  by (auto simp: withSortedTools_def hasAny_def split: option.splits)

lemma signature_withSortedTools:
  "createIntelligentSignature (withSortedTools m) = createIntelligentSignature m"
  by (simp add: createIntelligentSignature_def sortedTools_withSortedTools
      hasAny_files_withSortedTools) (simp add: withSortedTools_def)

lemma finalScore_withSortedTools [simp]: "finalScore (withSortedTools m) = finalScore m"
  by (simp add: withSortedTools_def)

lemma relevanceScore_withSortedTools [simp]: "relevanceScore (withSortedTools m) = relevanceScore m"
  by (simp add: withSortedTools_def)

lemma mapSet_absent: "k \<notin> fst ` set seen \<Longrightarrow> mapSet k v seen = seen @ [(k, v)]"
  by (induction k v seen rule: mapSet.induct) auto

lemma keys_mapSet:
  "map fst (mapSet k v seen) = (if k \<in> fst ` set seen then map fst seen else map fst seen @ [k])"
  by (induction k v seen rule: mapSet.induct) (auto simp: rev_image_eqI)

lemma set_mapSet: "set (mapSet k v seen) \<subseteq> insert (k, v) (set seen)"
  by (induction k v seen rule: mapSet.induct) auto

lemma list_all_mapSet:
  "list_all P seen \<Longrightarrow> P (k, v) \<Longrightarrow> list_all P (mapSet k v seen)"
  by (induction k v seen rule: mapSet.induct) auto

lemma seenOk_mapSet:
  assumes "seenOk seen" "k = createIntelligentSignature m" "withSortedTools m = m"
  shows "seenOk (mapSet k m seen)"
  using assms unfolding seenOk_def
  by (auto simp: keys_mapSet intro!: list_all_mapSet)

lemma seenOk_dedupStep: "seenOk seen \<Longrightarrow> seenOk (dedupStep message seen)"
  unfolding dedupStep_def Let_def
  by (auto split: option.splits intro!: seenOk_mapSet
      simp: signature_withSortedTools withSortedTools_idem)

lemma seenOk_fold: "seenOk seen \<Longrightarrow> seenOk (fold dedupStep ms seen)"
  by (induction ms arbitrary: seen) (auto simp: seenOk_dedupStep)

lemma seenOk_Nil: "seenOk []"
  by (simp add: seenOk_def)

lemma replay_seen:
  "seenOk (s1 @ s2) \<Longrightarrow> fold dedupStep (map snd s2) s1 = s1 @ s2"
proof (induction s2 arbitrary: s1)
  case Nil
  then show ?case by simp
next
  case (Cons p s2)
  obtain k m where p: "p = (k, m)" by (cases p)
  from Cons.prems p have k: "k = createIntelligentSignature m" and m: "withSortedTools m = m"
    and fresh: "k \<notin> fst ` set s1"
    by (auto simp: seenOk_def)
  from fresh have none: "map_of s1 k = None"
    by (simp add: map_of_eq_None_iff)
  have step: "dedupStep m s1 = s1 @ [(k, m)]"
    using k m none fresh by (simp add: dedupStep_def Let_def mapSet_absent)
  from Cons.prems p have "seenOk ((s1 @ [(k, m)]) @ s2)" by simp
  from Cons.IH [OF this] show ?case using p step by simp
qed


text \<open>
  C8. Deduplication is idempotent: deduplicating a list that deduplication has produced
  returns that list, the same records in the same order.
\<close>

theorem intelligentDeduplicate_idempotent:
  "intelligentDeduplicate (intelligentDeduplicate xs) = intelligentDeduplicate xs"
proof -
  have "seenOk ([] @ fold dedupStep xs [])"
    by (simp add: seenOk_fold seenOk_Nil)
  from replay_seen [OF this] show ?thesis
    by (simp add: intelligentDeduplicate_def)
qed

section \<open>Properties of the re-ranking\<close>

lemma fold_dedup_subset:
  "snd ` set (fold dedupStep ms seen) \<subseteq> snd ` set seen \<union> withSortedTools ` set ms"
proof (induction ms arbitrary: seen)
  case Nil
  then show ?case by simp
next
  case (Cons m ms)
  have "snd ` set (dedupStep m seen) \<subseteq> insert (withSortedTools m) (snd ` set seen)"
    using set_mapSet [of "createIntelligentSignature m" "withSortedTools m" seen]
    by (auto simp: dedupStep_def Let_def split: option.splits)
  with Cons.IH [of "dedupStep m seen"] show ?case by auto
qed

lemma set_dedup_subset: "set (intelligentDeduplicate ms) \<subseteq> withSortedTools ` set ms"
  using fold_dedup_subset [of ms "[]"] by (simp add: intelligentDeduplicate_def)

lemma scoreCandidate_relevance [simp]:
  "relevanceScore (scoreCandidate env query analysis msg) = relevanceScore msg"
  by (simp add: scoreCandidate_def Let_def)

lemma scoreCandidate_veto:
  "length (splitWords query) \<ge> 2 \<Longrightarrow> orZero (relevanceScore msg) = 0 \<Longrightarrow>
   finalScore (scoreCandidate env query analysis msg) = Some 0"
  by (simp add: scoreCandidate_def Let_def)

lemma select_members:
  "m \<in> set (selectTopRelevantResults env candidates query analysis limit) \<Longrightarrow>
   \<exists>c \<in> set candidates. m = withSortedTools (scoreCandidate env query analysis c)"
proof -
  assume "m \<in> set (selectTopRelevantResults env candidates query analysis limit)"
  then have "m \<in> set (intelligentDeduplicate
      (sort_key (\<lambda>m. - orZero (finalScore m)) (map (scoreCandidate env query analysis) candidates)))"
    by (auto simp: selectTopRelevantResults_def Let_def dest: in_set_takeD)
  with set_dedup_subset show ?thesis by fastforce
qed

lemmas corpus_eval =
  exampleCorpus_def exampleMessage_def exampleQuestion_def exampleText_def exampleRaw_def
  faultyCorpus_def

text \<open>
  C1. For a query with at least two words longer than two characters, a candidate whose
  base relevance score is 0 gets the final score 0 from the re-ranking step, for every
  analysis of the query (every set of semantic boosts, every urgency) and every clock; and
  every record that the re-ranker returns with base score 0 has final score 0.
\<close>

theorem multi_word_veto:
  assumes "2 \<le> length (splitWords query)"
  shows "(orZero (relevanceScore msg) = 0 \<longrightarrow>
            finalScore (scoreCandidate env query analysis msg) = Some 0) \<and>
         list_all (\<lambda>m. orZero (relevanceScore m) = 0 \<longrightarrow> finalScore m = Some 0)
           (selectTopRelevantResults env candidates query analysis limit)"
proof -
  have one: "orZero (relevanceScore c) = 0 \<Longrightarrow>
      finalScore (scoreCandidate env query analysis c) = Some 0" for c
    using assms by (rule scoreCandidate_veto)
  have "finalScore m = Some 0"
    if m: "m \<in> set (selectTopRelevantResults env candidates query analysis limit)"
      and z: "orZero (relevanceScore m) = 0" for m
  proof -
    from select_members [OF m] obtain c where c: "c \<in> set candidates"
      and eq: "m = withSortedTools (scoreCandidate env query analysis c)" by blast
    from z eq have "orZero (relevanceScore c) = 0" by simp
    from one [OF this] eq show ?thesis by simp
  qed
  then have "list_all (\<lambda>m. orZero (relevanceScore m) = 0 \<longrightarrow> finalScore m = Some 0)
      (selectTopRelevantResults env candidates query analysis limit)"
    by (simp add: list_all_iff)
  with one show ?thesis by blast
qed

theorem multi_word_veto_witness:
  "2 \<le> length (splitWords ''docker build error'') \<and>
   orZero (relevanceScore exampleQuestion) = 0 \<and>
   finalScore (scoreCandidate exampleCorpus ''docker build error''
     (analyzeQueryIntent ''docker build error'') exampleQuestion) = Some 0 \<and>
   selectTopRelevantResults exampleCorpus [exampleQuestion] ''docker build error''
     (analyzeQueryIntent ''docker build error'') 5 = [exampleQuestion\<lparr>finalScore := Some 0\<rparr>]"
proof -
  have words: "2 \<le> length (splitWords ''docker build error'')"
    by (simp add: splitWords_def split_re_def char_eval)
  have zero: "orZero (relevanceScore exampleQuestion) = 0"
    by (simp add: exampleQuestion_def orZero_def)
  from multi_word_veto [OF words, of exampleQuestion exampleCorpus
      "analyzeQueryIntent ''docker build error''" "[]" 0] zero
  have final: "finalScore (scoreCandidate exampleCorpus ''docker build error''
     (analyzeQueryIntent ''docker build error'') exampleQuestion) = Some 0"
    by blast
  have sel: "selectTopRelevantResults exampleCorpus [exampleQuestion] ''docker build error''
     (analyzeQueryIntent ''docker build error'') 5 = [exampleQuestion\<lparr>finalScore := Some 0\<rparr>]"
    by code_simp
  from words zero final sel show ?thesis by blast
qed

section \<open>Properties of the similarity engine\<close>

lemma pairScore_nonneg: "0 \<le> fst (pairScore w1 w2 s1 s2)"
  by (simp add: pairScore_def Let_def)

lemma ratio_le_one: "real (min a b) / real (max a b) \<le> 1"
  by (cases "max a b = 0") (auto simp: divide_le_eq_1)

lemma pairScore_le_one: "fst (pairScore w1 w2 s1 s2) \<le> 1"
proof -
  have "0.8 * (real (min (length w1) (length w2)) / real (max (length w1) (length w2))) \<le> 1"
    using ratio_le_one [of "length w1" "length w2"] by simp
  then show ?thesis by (simp add: pairScore_def Let_def)
qed

lemma pairScore_lt_one: "w1 \<noteq> w2 \<Longrightarrow> fst (pairScore w1 w2 s1 s2) < 1"
proof -
  assume ne: "w1 \<noteq> w2"
  have "0.8 * (real (min (length w1) (length w2)) / real (max (length w1) (length w2))) < 1"
    using ratio_le_one [of "length w1" "length w2"] by simp
  with ne show ?thesis by (simp add: pairScore_def Let_def)
qed

lemma pairScore_same: "pairScore w w s1 s2 = (1, s1 \<and> s2)"
  by (simp add: pairScore_def)

lemma innerLoop_mono:
  "innerLoop w s1 sg2 M js (b, bi, s) = (b', bi', s') \<Longrightarrow> b \<le> b' \<and> s \<le> s'"
proof (induction js arbitrary: b bi s)
  case Nil
  then show ?case by simp
next
  case (Cons p js)
  obtain j w2 where p: "p = (j, w2)" by (cases p)
  obtain ms c where ps: "pairScore w w2 s1 (w2 \<in> set sg2) = (ms, c)" by (cases "pairScore w w2 s1 (w2 \<in> set sg2)")
  show ?case
  proof (cases "j \<in> M")
    case True
    with Cons p show ?thesis by simp
  next
    case False
    show ?thesis
    proof (cases "ms > b")
      case True
      with Cons.prems p ps False
      have "innerLoop w s1 sg2 M js (ms, Some j, if c then s + 1 else s) = (b', bi', s')"
        by simp
      from Cons.IH [OF this] True show ?thesis by (auto split: if_splits)
    next
      case F2: False
      with Cons.prems p ps False
      have "innerLoop w s1 sg2 M js (b, bi, if c then s + 1 else s) = (b', bi', s')"
        by simp
      from Cons.IH [OF this] show ?thesis by (auto split: if_splits)
    qed
  qed
qed

lemma innerLoop_done:
  "\<exists>s'. innerLoop w s1 sg2 M js (1, Some j0, s) = (1, Some j0, s') \<and> s \<le> s'"
proof (induction js arbitrary: s)
  case Nil
  then show ?case by simp
next
  case (Cons p js)
  obtain j w2 where p: "p = (j, w2)" by (cases p)
  obtain ms c where ps: "pairScore w w2 s1 (w2 \<in> set sg2) = (ms, c)" by (cases "pairScore w w2 s1 (w2 \<in> set sg2)")
  from pairScore_le_one [of w w2 s1 "w2 \<in> set sg2"] ps have le: "\<not> ms > 1" by simp
  show ?case
  proof (cases "j \<in> M")
    case True
    with Cons.IH [of s] p show ?thesis by simp
  next
    case False
    from Cons.IH [of "if c then s + 1 else s"]
    obtain s' where "innerLoop w s1 sg2 M js (1, Some j0, if c then s + 1 else s) = (1, Some j0, s')"
      and "(if c then s + 1 else s) \<le> s'" by blast
    with p ps False le show ?thesis by (auto split: if_splits)
  qed
qed

lemma innerLoop_finds:
  "b < 1 \<Longrightarrow> w \<in> set (unmatched M js) \<Longrightarrow>
   \<exists>j s'. innerLoop w s1 sg2 M js (b, bi, s) = (1, Some j, s') \<and> (j, w) \<in> set js \<and> j \<notin> M \<and>
          s + (if s1 \<and> w \<in> set sg2 then 1 else 0) \<le> s'"
proof (induction js arbitrary: b bi s)
  case Nil
  then show ?case by (simp add: unmatched_def)
next
  case (Cons p js)
  obtain j w2 where p: "p = (j, w2)" by (cases p)
  obtain ms c where ps: "pairScore w w2 s1 (w2 \<in> set sg2) = (ms, c)" by (cases "pairScore w w2 s1 (w2 \<in> set sg2)")
  show ?case
  proof (cases "j \<in> M")
    case True
    with Cons.prems p have "w \<in> set (unmatched M js)" by (simp add: unmatched_def)
    from Cons.IH [OF Cons.prems(1) this, of bi s] True p show ?thesis by auto
  next
    case False
    show ?thesis
    proof (cases "w2 = w")
      case True
      with ps have msc: "ms = 1" "c = (s1 \<and> w \<in> set sg2)" by (simp_all add: pairScore_same)
      from innerLoop_done [of w s1 sg2 M js j "if c then s + 1 else s"]
      obtain s' where "innerLoop w s1 sg2 M js (1, Some j, if c then s + 1 else s) = (1, Some j, s')"
        and "(if c then s + 1 else s) \<le> s'" by blast
      with p ps False True msc Cons.prems(1) show ?thesis by (auto split: if_splits)
    next
      case ne: False
      with pairScore_lt_one [of w w2 s1 "w2 \<in> set sg2"] ps have lt: "ms < 1" by simp
      from Cons.prems p ne False have mem: "w \<in> set (unmatched M js)" by (auto simp: unmatched_def)
      show ?thesis
      proof (cases "ms > b")
        case True
        from Cons.IH [OF lt mem, of "Some j" "if c then s + 1 else s"]
        obtain j' s' where "innerLoop w s1 sg2 M js (ms, Some j, if c then s + 1 else s) = (1, Some j', s')"
          "(j', w) \<in> set js" "j' \<notin> M" "(if c then s + 1 else s) + (if s1 \<and> w \<in> set sg2 then 1 else 0) \<le> s'"
          by blast
        with p ps False True show ?thesis by (auto split: if_splits)
      next
        case F2: False
        from Cons.IH [OF Cons.prems(1) mem, of bi "if c then s + 1 else s"]
        obtain j' s' where "innerLoop w s1 sg2 M js (b, bi, if c then s + 1 else s) = (1, Some j', s')"
          "(j', w) \<in> set js" "j' \<notin> M" "(if c then s + 1 else s) + (if s1 \<and> w \<in> set sg2 then 1 else 0) \<le> s'"
          by blast
        with p ps False F2 show ?thesis by (auto split: if_splits)
      qed
    qed
  qed
qed

lemma unmatched_insert:
  "distinct (map fst ps) \<Longrightarrow> (j, w) \<in> set ps \<Longrightarrow> j \<notin> M \<Longrightarrow>
   mset (unmatched (insert j M) ps) = mset (unmatched M ps) - {#w#}"
proof (induction ps)
  case Nil
  then show ?case by simp
next
  case (Cons p ps)
  obtain j' w' where p: "p = (j', w')" by (cases p)
  show ?case
  proof (cases "j' = j")
    case True
    with Cons.prems p have w: "w' = w" and notin: "j \<notin> fst ` set ps"
      by (auto simp: rev_image_eqI)
    from notin have "filter (\<lambda>(i, w). i \<notin> insert j M) ps = filter (\<lambda>(i, w). i \<notin> M) ps"
      by (intro filter_cong) (auto simp: rev_image_eqI)
    with True p w Cons.prems(3) show ?thesis by (simp add: unmatched_def)
  next
    case False
    with Cons.prems p have mem: "(j, w) \<in> set ps" and d: "distinct (map fst ps)" by auto
    from Cons.IH [OF d mem Cons.prems(3)]
    have IH: "mset (unmatched (insert j M) ps) = mset (unmatched M ps) - {#w#}" .
    from mem Cons.prems(3) have win: "w \<in># mset (unmatched M ps)"
      by (force simp: unmatched_def)
    show ?thesis
    proof (cases "j' \<in> M")
      case True
      with p False IH show ?thesis by (simp add: unmatched_def)
    next
      case F2: False
      with p False IH win show ?thesis by (simp add: unmatched_def)
    qed
  qed
qed

lemma outerLoop_self:
  assumes "distinct (map fst (zip [0..<length ws2] ws2))"
  shows "mset rest \<subseteq># mset (unmatched M (zip [0..<length ws2] ws2)) \<Longrightarrow>
   outerLoop sg1 sg2 ws2 rest (t, s, M) = (t', s', M') \<Longrightarrow>
   t' = t + real (length rest) \<and>
   s + length (filter (\<lambda>w. w \<in> set sg1 \<and> w \<in> set sg2) rest) \<le> s'"
proof (induction rest arbitrary: t s M)
  case Nil
  then show ?case by simp
next
  case (Cons w rest)
  let ?ps = "zip [0..<length ws2] ws2"
  from Cons.prems(1) have win: "w \<in> set (unmatched M ?ps)"
    by (metis list.set_intros(1) mset_subset_eqD set_mset_mset)
  from innerLoop_finds [of 0 w M ?ps "w \<in> set sg1" sg2 None s, OF _ win]
  obtain j s1 where inner: "innerLoop w (w \<in> set sg1) sg2 M ?ps (0, None, s) = (1, Some j, s1)"
    and mem: "(j, w) \<in> set ?ps" and notin: "j \<notin> M"
    and cnt: "s + (if w \<in> set sg1 \<and> w \<in> set sg2 then 1 else 0) \<le> s1"
    by auto
  from Cons.prems(2) inner
  have run: "outerLoop sg1 sg2 ws2 rest (t + 1, s1, insert j M) = (t', s', M')" by simp
  have "mset (unmatched (insert j M) ?ps) = mset (unmatched M ?ps) - {#w#}"
    using unmatched_insert [OF assms mem notin] .
  moreover from Cons.prems(1) have "mset rest \<subseteq># mset (unmatched M ?ps) - {#w#}"
    by (simp add: insert_subset_eq_iff)
  ultimately have sub: "mset rest \<subseteq># mset (unmatched (insert j M) ?ps)" by simp
  from Cons.IH [OF sub run] cnt show ?case by (auto split: if_splits)
qed

lemma outerLoop_nonneg:
  "0 \<le> t \<Longrightarrow> outerLoop sg1 sg2 ws2 rest (t, s, M) = (t', s', M') \<Longrightarrow> 0 \<le> t'"
proof (induction rest arbitrary: t s M)
  case Nil
  then show ?case by simp
next
  case (Cons w rest)
  obtain b bi s1 where inner:
    "innerLoop w (w \<in> set sg1) sg2 M (zip [0..<length ws2] ws2) (0, None, s) = (b, bi, s1)"
    by (metis prod_cases3)
  from innerLoop_mono [OF inner] have b: "0 \<le> b" by simp
  show ?case
  proof (cases bi)
    case None
    with Cons.prems inner have "outerLoop sg1 sg2 ws2 rest (t, s1, M) = (t', s', M')" by simp
    from Cons.IH [OF Cons.prems(1) this] show ?thesis .
  next
    case (Some j)
    with Cons.prems inner have "outerLoop sg1 sg2 ws2 rest (t + b, s1, insert j M) = (t', s', M')"
      by simp
    moreover from Cons.prems(1) b have "0 \<le> t + b" by simp
    ultimately show ?thesis using Cons.IH by blast
  qed
qed

lemma similarity_bounds: "0 \<le> calculateQuerySimilarity a b \<and> calculateQuerySimilarity a b \<le> 1"
proof -
  let ?w1 = "splitWords (toLowerCase a)" and ?w2 = "splitWords (toLowerCase b)"
  obtain t s M where run:
    "outerLoop (significantWords ?w1) (significantWords ?w2) ?w2 ?w1 (0, 0, {}) = (t, s, M)"
    by (metis prod_cases3)
  from outerLoop_nonneg [OF _ run] have t: "0 \<le> t" by simp
  show ?thesis
    using run t by (simp add: calculateQuerySimilarity_def Let_def)
qed

lemma similarity_self:
  assumes "splitWords (toLowerCase a) \<noteq> []"
  shows "calculateQuerySimilarity a a = 1"
proof -
  let ?ws = "splitWords (toLowerCase a)"
  let ?sg = "significantWords ?ws"
  obtain t s M where run: "outerLoop ?sg ?sg ?ws ?ws (0, 0, {}) = (t, s, M)"
    by (metis prod_cases3)
  have d: "distinct (map fst (zip [0..<length ?ws] ?ws))" by simp
  have un: "unmatched {} (zip [0..<length ?ws] ?ws) = ?ws"
    by (simp add: unmatched_def)
  from outerLoop_self [OF d _ run] un
  have t: "t = real (length ?ws)"
    and s: "length (filter (\<lambda>w. w \<in> set ?sg \<and> w \<in> set ?sg) ?ws) \<le> s" by auto
  have "filter (\<lambda>w. w \<in> set ?sg \<and> w \<in> set ?sg) ?ws = ?sg"
    by (auto simp: significantWords_def intro: filter_cong)
  with s have s2: "length ?sg \<le> s" by simp
  from assms have pos: "0 < real (length ?ws)" by simp
  have stem_ge: "0 \<le> real (length (filter (\<lambda>w. w \<in> set (map stem ?ws)) (map stem ?ws))) /
     real (length ?ws) * 0.3" by simp
  show ?thesis
    using run t s2 assms pos stem_ge
    by (auto simp add: calculateQuerySimilarity_def Let_def)
qed

lemmas sim_eval =
  calculateQuerySimilarity_def greedySignificantMatches_def splitWords_def split_re_def
  significantWords_def stopWords_def pairScore_def isWordSimilar_def synonymHit_def
  technicalSynonyms_def stem_def endsWith_def technicalWords_def char_eval Let_def

text \<open>
  C5. The similarity of two queries lies in the closed interval from 0 to 1, and the
  similarity of a query with itself is the largest value that the similarity of that query
  with any query takes.
\<close>

theorem similarity_bounded_and_self_maximal:
  "0 \<le> calculateQuerySimilarity a b \<and> calculateQuerySimilarity a b \<le> 1 \<and>
   calculateQuerySimilarity a b \<le> calculateQuerySimilarity a a"
proof (cases "splitWords (toLowerCase a) = []")
  case True
  then have "calculateQuerySimilarity a b = 0" "calculateQuerySimilarity a a = 0"
    by (simp_all add: calculateQuerySimilarity_def Let_def)
  then show ?thesis by simp
next
  case False
  from similarity_self [OF False] similarity_bounds [of a b] show ?thesis by simp
qed

text \<open>
  C4, at an input where the code departs from the gate as specified. Both queries have two
  significant words. The greedy assignment commits to one pair only, "deploy" with
  "deploy", so fewer than two greedy matches join significant words; yet the similarity is
  13/20 and not 0, because the counter is incremented for every pair that the inner loop
  examines: "deploy" against "deploy" and "deploy" against "deployed". The example of
  the specification does evaluate to 0.
\<close>

theorem similarity_gate_counts_examined_pairs:
  "length (significantWords (splitWords (toLowerCase ''deploy kubernetes''))) = 2 \<and>
   length (significantWords (splitWords (toLowerCase ''deploy deployed''))) = 2 \<and>
   greedySignificantMatches ''deploy kubernetes'' ''deploy deployed'' = 1 \<and>
   calculateQuerySimilarity ''deploy kubernetes'' ''deploy deployed'' = 13 / 20 \<and>
   calculateQuerySimilarity ''write unit tests'' ''test sidekick'' = 0"
proof -
  have a: "length (significantWords (splitWords (toLowerCase ''deploy kubernetes''))) = 2"
    by (simp add: sim_eval)
  have b: "length (significantWords (splitWords (toLowerCase ''deploy deployed''))) = 2"
    by (simp add: sim_eval)
  have c: "greedySignificantMatches ''deploy kubernetes'' ''deploy deployed'' = 1"
    by (simp add: sim_eval)
  have d: "calculateQuerySimilarity ''deploy kubernetes'' ''deploy deployed'' = 13 / 20"
    by (simp add: sim_eval)
  have e: "calculateQuerySimilarity ''write unit tests'' ''test sidekick'' = 0"
    by (simp add: sim_eval)
  from a b c d e show ?thesis by blast
qed

section \<open>Properties of the similar-query search\<close>

lemma attachAnswer_fields [simp]:
  "msg_type (attachAnswer ms q) = msg_type q"
  "msg_content (attachAnswer ms q) = msg_content q"
  "relevanceScore (attachAnswer ms q) = relevanceScore q"
  by (simp_all add: attachAnswer_def split: option.splits)

lemma similarIn_ok:
  "list_all isUserQuery qs \<Longrightarrow> list_all (similarOk sim t) (similarIn sim t ms qs)"
  by (induction qs) (auto simp: Let_def similarOk_def isUserQuery_def)

lemma scanFiles_ok:
  "list_all (similarOk sim t) acc \<Longrightarrow> scanFiles sim env t limit d files acc = Inr r \<Longrightarrow>
   list_all (similarOk sim t) r"
proof (induction files arbitrary: acc)
  case Nil
  then show ?case by simp
next
  case (Cons f files)
  from Cons.prems(2) obtain ms where ms: "parseJsonlFile env d f = Inr ms"
    by (auto split: sum.splits)
  let ?acc = "acc @ similarIn sim t ms (filter isUserQuery ms)"
  have ok: "list_all (similarOk sim t) ?acc"
    using Cons.prems(1) similarIn_ok [of "filter isUserQuery ms" sim t ms]
    by (auto simp: list_all_iff)
  show ?case
  proof (cases "limit * 4 \<le> real (length ?acc)")
    case True
    with Cons.prems(2) ms ok show ?thesis by (auto simp: Let_def)
  next
    case False
    with Cons.prems(2) ms have "scanFiles sim env t limit d files ?acc = Inr r"
      by (simp add: Let_def)
    from Cons.IH [OF ok this] show ?thesis .
  qed
qed

lemma scanProjects_ok:
  "list_all (similarOk sim t) acc \<Longrightarrow> scanProjects sim env t limit dirs acc = Inr r \<Longrightarrow>
   list_all (similarOk sim t) r"
proof (induction dirs arbitrary: acc)
  case Nil
  then show ?case by simp
next
  case (Cons d dirs)
  from Cons.prems(2) obtain fs where fs: "findJsonlFiles env d = Inr fs"
    by (auto split: sum.splits)
  from Cons.prems(2) fs obtain acc' where
    acc': "scanFiles sim env t limit d (take 5 fs) acc = Inr acc'"
    by (auto split: sum.splits)
  from scanFiles_ok [OF Cons.prems(1) acc'] have ok: "list_all (similarOk sim t) acc'" .
  show ?case
  proof (cases "limit * 4 \<le> real (length acc')")
    case True
    with Cons.prems(2) fs acc' ok show ?thesis by simp
  next
    case False
    with Cons.prems(2) fs acc' have "scanProjects sim env t limit dirs acc' = Inr r" by simp
    from Cons.IH [OF ok this] show ?thesis .
  qed
qed

lemma similarOk_key:
  "similarOk sim t m \<Longrightarrow> orZero (relevanceScore m) = sim t (msg_content m)"
  by (simp add: similarOk_def orZero_def)

lemma js_slice0_take: "\<exists>n. js_slice0 xs e = take n xs"
  by (auto simp: js_slice0_def Let_def)

lemma js_slice0_length:
  "0 \<le> e \<Longrightarrow> real (length (js_slice0 xs e)) \<le> e"
proof -
  assume e: "0 \<le> e"
  then have t: "jsToInteger e = \<lfloor>e\<rfloor>" by (simp add: jsToInteger_def)
  from e have nn: "0 \<le> \<lfloor>e\<rfloor>" by simp
  have "length (js_slice0 xs e) \<le> nat \<lfloor>e\<rfloor>"
    using nn by (simp add: js_slice0_def Let_def t)
  then have "real (length (js_slice0 xs e)) \<le> real (nat \<lfloor>e\<rfloor>)" by simp
  also have "\<dots> = of_int \<lfloor>e\<rfloor>" using nn by simp
  also have "\<dots> \<le> e" by simp
  finally show ?thesis .
qed

lemma ranked_ok:
  assumes "list_all (similarOk sim t) xs"
  shows "list_all (similarOk sim t)
           (js_slice0 (sort_key (\<lambda>m. - orZero (relevanceScore m)) (filter p xs)) limit) \<and>
         sorted_wrt (\<lambda>a b. sim t (msg_content b) \<le> sim t (msg_content a))
           (js_slice0 (sort_key (\<lambda>m. - orZero (relevanceScore m)) (filter p xs)) limit)"
proof -
  define k :: "CompactMessage \<Rightarrow> real" where "k = (\<lambda>m. - orZero (relevanceScore m))"
  define r where "r = js_slice0 (sort_key k (filter p xs)) limit"
  from js_slice0_take [of "sort_key k (filter p xs)" limit]
  obtain n where rn: "r = take n (sort_key k (filter p xs))" unfolding r_def by blast
  have "set r \<subseteq> set (sort_key k (filter p xs))"
    unfolding rn by (rule set_take_subset)
  also have "\<dots> = set (filter p xs)" by simp
  also have "\<dots> \<subseteq> set xs" by (rule filter_is_subset)
  finally have sub: "set r \<subseteq> set xs" .
  from assms have all: "\<And>m. m \<in> set xs \<Longrightarrow> similarOk sim t m"
    by (simp add: list_all_iff)
  with sub have ok: "\<And>m. m \<in> set r \<Longrightarrow> similarOk sim t m" by blast
  have "sorted (map k (sort_key k (filter p xs)))" by (rule sorted_sort_key)
  then have "sorted_wrt (\<lambda>a b. k a \<le> k b) (sort_key k (filter p xs))"
    by (simp only: sorted_map)
  then have srt: "sorted_wrt (\<lambda>a b. k a \<le> k b) r"
    unfolding rn by (rule sorted_wrt_take)
  have "sorted_wrt (\<lambda>a b. sim t (msg_content b) \<le> sim t (msg_content a)) r"
  proof (rule sorted_wrt_mono_rel [OF _ srt])
    fix a b assume a: "a \<in> set r" and b: "b \<in> set r" and le: "k a \<le> k b"
    from similarOk_key [OF ok [OF a]] similarOk_key [OF ok [OF b]] le
    show "sim t (msg_content b) \<le> sim t (msg_content a)"
      by (simp add: k_def)
  qed
  moreover from ok have "list_all (similarOk sim t) r" by (simp add: list_all_iff)
  ultimately show ?thesis unfolding r_def k_def by blast
qed

text \<open>
  C10, as the code has it. Whatever value the similarity computation gives, every record
  returned by the similar-query search is a user record whose content is longer than 15
  and shorter than 800 characters, whose relevance score is its computed similarity to the
  target query, and that similarity exceeds 0.4; the list is in non-increasing order of
  similarity. The list holds at most \<open>limit\<close> records when \<open>limit\<close> is not negative: the
  limit is not validated, and a negative one makes \<^verbatim>\<open>slice(0, limit)\<close> count from the
  end of the ranked list.
\<close>

theorem findSimilarQueries_results:
  "list_all (\<lambda>m. msg_type m = User \<and> 15 < length (msg_content m) \<and>
                  length (msg_content m) < 800 \<and>
                  relevanceScore m = Some (similarityOf targetQuery (msg_content m)) \<and>
                  0.4 < similarityOf targetQuery (msg_content m))
     (findSimilarQueriesWith similarityOf env targetQuery limit) \<and>
   sorted_wrt (\<lambda>a b. similarityOf targetQuery (msg_content b) \<le>
                      similarityOf targetQuery (msg_content a))
     (findSimilarQueriesWith similarityOf env targetQuery limit) \<and>
   (0 \<le> limit \<longrightarrow>
      real (length (findSimilarQueriesWith similarityOf env targetQuery limit)) \<le> limit)"
proof -
  have len: "real (length (findSimilarQueriesWith similarityOf env targetQuery limit)) \<le> limit"
    if "0 \<le> limit"
    using that js_slice0_length [OF that]
    by (auto simp: findSimilarQueriesWith_def split: sum.splits)
  have "list_all (similarOk similarityOf targetQuery)
          (findSimilarQueriesWith similarityOf env targetQuery limit) \<and>
        sorted_wrt (\<lambda>a b. similarityOf targetQuery (msg_content b) \<le>
                      similarityOf targetQuery (msg_content a))
          (findSimilarQueriesWith similarityOf env targetQuery limit)"
  proof (cases "findProjectDirectories env")
    case (Inl e)
    then show ?thesis by (simp add: findSimilarQueriesWith_def)
  next
    case (Inr dirs)
    show ?thesis
    proof (cases "scanProjects similarityOf env targetQuery limit (take 8 dirs) []")
      case (Inl e)
      with Inr show ?thesis by (simp add: findSimilarQueriesWith_def)
    next
      case inr: (Inr acc)
      from scanProjects_ok [OF _ inr] have "list_all (similarOk similarityOf targetQuery) acc"
        by simp
      from ranked_ok [OF this] Inr inr show ?thesis
        by (simp add: findSimilarQueriesWith_def)
    qed
  qed
  with len show ?thesis
    by (simp add: similarOk_def [abs_def])
qed

theorem findSimilarQueries_results_witness:
  "(0::real) \<le> 3 \<and>
   map msg_uuid (findSimilarQueries exampleCorpus ''fix docker build error'' 3) = [''u1''] \<and>
   map relevanceScore (findSimilarQueries exampleCorpus ''fix docker build error'' 3) =
     [Some (calculateQuerySimilarity ''fix docker build error''
        ''How do I fix the docker build error'')] \<and>
   real (length (findSimilarQueries exampleCorpus ''fix docker build error'' 3)) \<le> 3"
proof -
  have ev: "map msg_uuid (findSimilarQueries exampleCorpus ''fix docker build error'' 3) = [''u1'']"
    by code_simp
  have c: "map msg_content (findSimilarQueries exampleCorpus ''fix docker build error'' 3) =
     [''How do I fix the docker build error'']"
    by code_simp
  from c have one: "\<exists>m. findSimilarQueries exampleCorpus ''fix docker build error'' 3 = [m] \<and>
      msg_content m = ''How do I fix the docker build error''"
    by auto
  from findSimilarQueries_results
    [of calculateQuerySimilarity "''fix docker build error''" exampleCorpus 3] ev one
  show ?thesis
    by (auto simp: findSimilarQueries_def)
qed

text \<open>
  C10 with the bound stated for every limit does not hold. With the limit -1 the scan stops
  after the first file (its record count is at least -4) and \<^verbatim>\<open>slice(0, -1)\<close> drops only
  the last record of the ranked list: over a corpus with two similar questions the search
  returns one record, which is more than the limit.
\<close>

theorem negative_limit_counterexample:
  "map msg_uuid (findSimilarQueries twoQuestionCorpus ''fix docker build error'' (- 1)) =
     [''u1''] \<and>
   \<not> real (length (findSimilarQueries twoQuestionCorpus ''fix docker build error'' (- 1)))
       \<le> - 1"
proof -
  have ev: "map msg_uuid
      (findSimilarQueries twoQuestionCorpus ''fix docker build error'' (- 1)) = [''u1'']"
    by code_simp
  then have "length (findSimilarQueries twoQuestionCorpus ''fix docker build error'' (- 1)) = 1"
    by (metis length_map length_Cons list.size(3) One_nat_def)
  with ev show ?thesis by simp
qed

section \<open>Properties of the search operation\<close>

lemma enumeration_fault_propagates:
  "findProjectDirectories env = Inl e \<Longrightarrow>
   performOptimizedSearch env query analysis limit startTime projectFilter timeframe = Inl e"
  by (simp add: performOptimizedSearch_def)

lemma search_catches:
  "performOptimizedSearch env query (analyzeQueryIntent query) limit startTime projectFilter
      timeframe = Inl e \<Longrightarrow>
   searchConversations env startTime query projectFilter timeframe limit =
     emptyResult env query startTime"
  by (simp add: searchConversations_def Let_def)

lemma findSimilar_catches:
  "findProjectDirectories env = Inl e \<Longrightarrow> findSimilarQueries env query limit = []"
  by (simp add: findSimilarQueries_def findSimilarQueriesWith_def)

lemma empty_listing_perform:
  "findProjectDirectories env = Inr [] \<Longrightarrow>
   performOptimizedSearch env query analysis limit startTime projectFilter timeframe =
     Inr (emptyResult env query startTime)"
  by (simp add: performOptimizedSearch_def Let_def emptyResult_def gatherRelevantCandidates_def
      selectTopRelevantResults_def intelligentDeduplicate_def split: option.splits)

lemma short_query_perform:
  "length query < 3 \<Longrightarrow> findProjectDirectories env = Inr dirs \<Longrightarrow>
   performOptimizedSearch env query analysis limit startTime projectFilter timeframe =
     Inr (emptyResult env query startTime)"
  by (simp add: performOptimizedSearch_def Let_def)

text \<open>
  C6, as the code has it: the guard reads the length of the query as given, untrimmed. A
  query shorter than 3 characters, the empty one included, gets the empty result with no
  messages and a total of 0.
\<close>

theorem short_query_empty_result:
  assumes "length query < 3"
  shows "searchConversations env startTime query projectFilter timeframe limit =
           \<lparr>messages = [], totalResults = 0, searchQuery = query,
            executionTime = endClock env - startTime\<rparr>"
proof (cases "findProjectDirectories env")
  case (Inl e)
  from search_catches [OF enumeration_fault_propagates [OF Inl]] show ?thesis
    by (simp add: emptyResult_def)
next
  case (Inr dirs)
  from short_query_perform [OF assms Inr] show ?thesis
    by (simp add: searchConversations_def Let_def emptyResult_def)
qed

theorem short_query_empty_result_witness:
  "length ''ab'' < 3 \<and>
   searchConversations exampleCorpus 1000 ''ab'' None None 15 =
     \<lparr>messages = [], totalResults = 0, searchQuery = ''ab'', executionTime = 5\<rparr> \<and>
   searchConversations exampleCorpus 1000 [] None None 15 =
     \<lparr>messages = [], totalResults = 0, searchQuery = [], executionTime = 5\<rparr>"
proof -
  have c: "endClock exampleCorpus - 1000 = 5"
    by (simp add: exampleCorpus_def)
  from short_query_empty_result [of "''ab''" exampleCorpus 1000 None None 15]
    short_query_empty_result [of "[]" exampleCorpus 1000 None None 15] c
  show ?thesis by simp
qed

text \<open>
  The example message carries the score that the scorer computes for the query
  \<^verbatim>\<open>"ab "\<close>: 5 for the phrase and 3 for the file reference.
\<close>

lemma exampleMessage_score:
  "relevanceScore exampleMessage =
     Some (calculateRelevanceScore exampleRaw ''ab '' (Some ''-home-user-app''))"
  by code_simp

text \<open>
  C6 with the trimmed length does not hold: the query \<^verbatim>\<open>"ab "\<close> has trimmed length
  2 and length 3, so the guard lets it through, and the search over the small corpus
  returns one message and a total of 1.
\<close>

theorem trimmed_short_query_counterexample:
  "length (trim ''ab '') < 3 \<and>
   messages (searchConversations exampleCorpus 1000 ''ab '' None None 15) =
     [exampleMessage\<lparr>finalScore := Some 8\<rparr>] \<and>
   totalResults (searchConversations exampleCorpus 1000 ''ab '' None None 15) = 1"
proof -
  have t: "length (trim ''ab '') < 3"
    by (simp add: trim_def char_eval)
  have s: "searchConversations exampleCorpus 1000 ''ab '' None None 15 =
     \<lparr>messages = [exampleMessage\<lparr>finalScore := Some 8\<rparr>], totalResults = 1,
      searchQuery = ''ab '', executionTime = 5\<rparr>"
    by code_simp
  from t s show ?thesis by simp
qed

end
